theory Spec2Isabelle
  imports Main "HOL-Library.Word"
begin

section \<open>Errors (the error file of package dbkit)\<close>

text \<open>
  \<open>ErrorCode\<close> is a Go string type with exactly ten declared constants; the datatype
  has one constructor for each of them, in the order of the source.
\<close>

datatype ErrorCode =
    CodeNotFound
  | CodeDuplicate
  | CodeForeignKey
  | CodeCheckViolation
  | CodeNotNullViolation
  | CodeConnectionFailed
  | CodeTimeout
  | CodeSerialization
  | CodeDeadlock
  | CodeUnknown

text \<open>The fields of \<open>pgconn.PgError\<close> that \<open>wrapPgError\<close> and \<open>Error()\<close> read.\<close>

record PgError =
  pg_Severity :: string
  pg_Code :: string
  pg_Message :: string
  pg_TableName :: string
  pg_ColumnName :: string
  pg_ConstraintName :: string
  pg_Detail :: string
  pg_Hint :: string

text \<open>
  Values of Go's \<open>error\<close> interface that reach this package. \<open>ErrTxDone\<close> is the
  sentinel \<open>sql.ErrTxDone\<close> (compared by identity in \<open>Tx.Rollback\<close>); \<open>Plain s\<close> is any
  other opaque error whose \<open>Error()\<close> text is \<open>s\<close>; \<open>Pg\<close> is a \<open>*pgconn.PgError\<close>;
  \<open>DbkitError\<close> is the package's own \<open>*Error\<close> struct, field by field, its \<open>Cause\<close>
  being \<open>None\<close> for nil; \<open>Errorf s e\<close> is the result of \<open>fmt.Errorf\<close> with one \<open>%w\<close>
  verb: its text is \<open>s\<close> and it unwraps to \<open>e\<close>. A nil \<open>error\<close> is \<open>None\<close> of
  \<open>error option\<close>.
\<close>

datatype error =
    ErrTxDone
  | Plain string
  | Pg PgError
  | DbkitError (Code: ErrorCode) (Message: string) (Op: string) (Table: string)
      (Column: string) (Constraint: string) (Detail: string) (Hint: string)
      (Query: string) (Cause: "error option")
  | Errorf string error

text \<open>\<open>&Error{Code: c, Message: m, Op: op, Cause: cause}\<close>: the other fields are empty.\<close>

definition mkError :: "ErrorCode \<Rightarrow> string \<Rightarrow> string \<Rightarrow> error option \<Rightarrow> error" where
  "mkError c m op cause = DbkitError c m op [] [] [] [] [] [] cause"

text \<open>
  The \<open>Error()\<close> method. For \<open>*Error\<close> it is the method of the source; for the
  library errors it is the text the library prints.
\<close>

fun err_string :: "error \<Rightarrow> string" where
  "err_string ErrTxDone = ''sql: transaction has already been committed or rolled back''"
| "err_string (Plain s) = s"
| "err_string (Pg p) = pg_Severity p @ '': '' @ pg_Message p @ '' (SQLSTATE '' @ pg_Code p @ '')''"
| "err_string (DbkitError c m op tbl col con det hint q cause) =
     (let msg = (if op \<noteq> [] then ''dbkit.'' @ op @ '': '' @ m else ''dbkit: '' @ m);
          msg = (if tbl \<noteq> [] then msg @ '' (table: '' @ tbl @ '')'' else msg);
          msg = (if con \<noteq> [] then msg @ '' (constraint: '' @ con @ '')'' else msg)
      in msg)"
| "err_string (Errorf s e) = s"

text \<open>\<open>Unwrap\<close>, as \<open>errors.Unwrap\<close> sees it.\<close>

fun unwrap :: "error \<Rightarrow> error option" where
  "unwrap (DbkitError c m op tbl col con det hint q cause) = cause"
| "unwrap (Errorf s e) = Some e"
| "unwrap e = None"

text \<open>
  \<open>errors.As(err, &dbErr)\<close> with \<open>dbErr\<close> of type \<open>*Error\<close>: the first \<open>*Error\<close> on
  the unwrap chain. \<open>errors.As(err, &pgErr)\<close> likewise for \<open>*pgconn.PgError\<close>.
\<close>

fun as_Error :: "error \<Rightarrow> error option" where
  "as_Error (DbkitError c m op tbl col con det hint q cause) =
     Some (DbkitError c m op tbl col con det hint q cause)"
| "as_Error (Errorf s e) = as_Error e"
| "as_Error e = None"

fun as_PgError :: "error \<Rightarrow> PgError option" where
  "as_PgError (Pg p) = Some p"
| "as_PgError (Errorf s e) = as_PgError e"
| "as_PgError (DbkitError c m op tbl col con det hint q cause) =
     (case cause of None \<Rightarrow> None | Some e \<Rightarrow> as_PgError e)"
| "as_PgError e = None"

definition wrapPgError :: "PgError \<Rightarrow> string \<Rightarrow> error" where
  "wrapPgError pgErr op =
     (let mk = (\<lambda>c m. DbkitError c m op (pg_TableName pgErr) (pg_ColumnName pgErr)
                  (pg_ConstraintName pgErr) (pg_Detail pgErr) (pg_Hint pgErr) [] (Some (Pg pgErr)))
      in if pg_Code pgErr = ''23505'' then mk CodeDuplicate ''duplicate key value violates unique constraint''
         else if pg_Code pgErr = ''23503'' then mk CodeForeignKey ''foreign key constraint violation''
         else if pg_Code pgErr = ''23502'' then mk CodeNotNullViolation ''null value in column violates not-null constraint''
         else if pg_Code pgErr = ''23514'' then mk CodeCheckViolation ''check constraint violation''
         else if pg_Code pgErr = ''40001'' then mk CodeSerialization ''serialization failure, retry transaction''
         else if pg_Code pgErr = ''40P01'' then mk CodeDeadlock ''deadlock detected''
         else if pg_Code pgErr = ''57014'' then mk CodeTimeout ''query was cancelled due to timeout''
         else if pg_Code pgErr \<in> {''08000'', ''08003'', ''08006''} then mk CodeConnectionFailed ''database connection failed''
         else mk CodeUnknown (pg_Message pgErr))"

text \<open>
  \<open>wrapError\<close>: nil stays nil; \<open>wrapError_nonnil\<close> is the rest of the function, on an
  error that is not nil.
\<close>

definition wrapError_nonnil :: "error \<Rightarrow> string \<Rightarrow> error" where
  "wrapError_nonnil e op =
     (if as_Error e \<noteq> None then e
      else if err_string e = ''sql: no rows in result set''
        then mkError CodeNotFound ''record not found'' op (Some e)
      else (case as_PgError e of
              Some pgErr \<Rightarrow> wrapPgError pgErr op
            | None \<Rightarrow> mkError CodeUnknown (err_string e) op (Some e)))"

definition wrapError :: "error option \<Rightarrow> string \<Rightarrow> error option" where
  "wrapError err op = (case err of None \<Rightarrow> None | Some e \<Rightarrow> Some (wrapError_nonnil e op))"

text \<open>\<open>GetErrorCode\<close>: the code of the first \<open>*Error\<close> on the chain, if there is one.\<close>

definition GetErrorCode :: "error \<Rightarrow> ErrorCode option" where
  "GetErrorCode err = (case as_Error err of Some dbErr \<Rightarrow> Some (Code dbErr) | None \<Rightarrow> None)"


section \<open>The database behind the connection handle\<close>

text \<open>
  The connection pool, \<open>database/sql\<close> and the server are collaborators of the package,
  not part of it. They are modelled by a small sequential reference database, so that
  the package's functions can be run and their effect on persisted data stated.

  \<^item> The persisted data is the user's schema (of any type \<open>'s\<close>) and the ledger table
    \<open>_dbkit_migrations\<close>, which is absent (\<open>None\<close>) or holds rows in insertion order.
    The columns \<open>applied_at\<close> and \<open>duration_ms\<close> and every other wall-clock value of the
    source are left out: time is not modelled.
  \<^item> The meaning of an ordinary SQL text on the schema is a parameter
    \<open>sem :: string \<Rightarrow> 's \<Rightarrow> error + 's\<close>; a failing statement changes nothing.
  \<^item> Every request is appended to \<open>log\<close>, and takes the next entry of the fault schedule
    \<open>faults\<close>: \<open>Some e\<close> makes the request fail with \<open>e\<close> and no effect (a lost
    connection, a timeout); an empty schedule means no fault.
\<close>

record LedgerRow =
  row_id :: string
  row_description :: string
  row_checksum :: string

record 's dbdata =
  schema :: 's
  ledger :: "LedgerRow list option"

datatype IsolationLevel =
    LevelDefault
  | LevelReadUncommitted
  | LevelReadCommitted
  | LevelWriteCommitted
  | LevelRepeatableRead
  | LevelSnapshot
  | LevelSerializable
  | LevelLinearizable

record TxOptions =
  Isolation :: IsolationLevel
  ReadOnly :: bool

datatype request =
    ReqBegin TxOptions
  | ReqExec string
  | ReqInsertLedger string string string
  | ReqSelectLedger
  | ReqCommit
  | ReqRollback

record 's world =
  durable :: "'s dbdata"
  log :: "request list"
  faults :: "error option list"

text \<open>
  The state a transaction scope works on: the server, and the physical transaction
  (\<open>bun.Tx\<close> around \<open>sql.Tx\<close>) with its \<open>done\<close> flag (\<open>tx_done\<close>), its uncommitted working copy of the
  data and its stack of savepoints (newest first, each with the data at its creation).
  \<open>savepointSeq\<close> is the \<open>int64\<close> cell that \<open>Tx.savepointSeq\<close> points to: one cell for
  the physical transaction, shared by every scope on it.
\<close>

record 's txstate =
  srv :: "'s world"
  tx_done :: bool
  work :: "'s dbdata"
  saves :: "(string \<times> 's dbdata) list"
  savepointSeq :: "64 word"

text \<open>The constant \<open>migrationsTable\<close> of the source, character by character.\<close>

definition migrationsTable :: string where
  "migrationsTable =
     ''\<newline>CREATE TABLE IF NOT EXISTS _dbkit_migrations (\<newline>'' @
     ''    id VARCHAR(255) PRIMARY KEY,\<newline>'' @
     ''    description TEXT,\<newline>'' @
     ''    checksum VARCHAR(64) NOT NULL,\<newline>'' @
     ''    applied_at TIMESTAMPTZ NOT NULL DEFAULT NOW(),\<newline>'' @
     ''    duration_ms BIGINT NOT NULL\<newline>'' @
     '');\<newline>''"

datatype stmt =
    StEnsureLedger
  | StSavepoint string
  | StRollbackTo string
  | StRelease string
  | StOther string

definition strip_prefix :: "string \<Rightarrow> string \<Rightarrow> string option" where
  "strip_prefix p s = (if take (length p) s = p then Some (drop (length p) s) else None)"

text \<open>How the reference database reads a statement text.\<close>

definition parse_stmt :: "string \<Rightarrow> stmt" where
  "parse_stmt q =
     (if q = migrationsTable then StEnsureLedger
      else case strip_prefix ''SAVEPOINT '' q of
        Some n \<Rightarrow> StSavepoint n
      | None \<Rightarrow>
     (case strip_prefix ''ROLLBACK TO SAVEPOINT '' q of
        Some n \<Rightarrow> StRollbackTo n
      | None \<Rightarrow>
     (case strip_prefix ''RELEASE SAVEPOINT '' q of
        Some n \<Rightarrow> StRelease n
      | None \<Rightarrow> StOther q)))"

definition pg_error :: "string \<Rightarrow> string \<Rightarrow> error" where
  "pg_error code msg =
     Pg \<lparr>pg_Severity = ''ERROR'', pg_Code = code, pg_Message = msg, pg_TableName = [],
         pg_ColumnName = [], pg_ConstraintName = [], pg_Detail = [], pg_Hint = []\<rparr>"

definition no_savepoint :: "string \<Rightarrow> error" where
  "no_savepoint n = pg_error ''3B001'' (''savepoint '' @ [CHR 0x22] @ n @ [CHR 0x22] @ '' does not exist'')"

definition no_transaction :: error where
  "no_transaction = pg_error ''25P01'' ''SAVEPOINT can only be used in transaction blocks''"

definition undefined_table :: error where
  "undefined_table = pg_error ''42P01'' (''relation '' @ [CHR 0x22] @ ''_dbkit_migrations'' @ [CHR 0x22] @ '' does not exist'')"

definition unique_violation :: error where
  "unique_violation =
     Pg \<lparr>pg_Severity = ''ERROR'', pg_Code = ''23505'',
         pg_Message = ''duplicate key value violates unique constraint '' @ [CHR 0x22] @
           ''_dbkit_migrations_pkey'' @ [CHR 0x22],
         pg_TableName = ''_dbkit_migrations'', pg_ColumnName = [],
         pg_ConstraintName = ''_dbkit_migrations_pkey'', pg_Detail = [], pg_Hint = []\<rparr>"

definition ensure_ledger :: "'s dbdata \<Rightarrow> 's dbdata" where
  "ensure_ledger d = (case ledger d of None \<Rightarrow> d\<lparr>ledger := Some []\<rparr> | Some rows \<Rightarrow> d)"

text \<open>The rows of the ledger; an absent table has none.\<close>

definition ledger_rows :: "'s dbdata \<Rightarrow> LedgerRow list" where
  "ledger_rows d = (case ledger d of None \<Rightarrow> [] | Some rows \<Rightarrow> rows)"

text \<open>\<open>INSERT INTO _dbkit_migrations\<close>: the primary key \<open>id\<close> refuses a second row.\<close>

definition insert_row :: "LedgerRow \<Rightarrow> 's dbdata \<Rightarrow> error + 's dbdata" where
  "insert_row r d =
     (case ledger d of
        None \<Rightarrow> Inl undefined_table
      | Some rows \<Rightarrow>
          if row_id r \<in> set (map row_id rows) then Inl unique_violation
          else Inr (d\<lparr>ledger := Some (rows @ [r])\<rparr>))"

definition send :: "request \<Rightarrow> 's world \<Rightarrow> error option \<times> 's world" where
  "send r w =
     (case faults w of
        [] \<Rightarrow> (None, w\<lparr>log := log w @ [r]\<rparr>)
      | f # fs \<Rightarrow> (f, w\<lparr>log := log w @ [r], faults := fs\<rparr>))"

definition tx_send :: "request \<Rightarrow> 's txstate \<Rightarrow> error option \<times> 's txstate" where
  "tx_send r st = (case send r (srv st) of (f, w) \<Rightarrow> (f, st\<lparr>srv := w\<rparr>))"

subsection \<open>Requests outside a transaction (the pool, autocommit)\<close>

definition db_ExecContext ::
  "(string \<Rightarrow> 's \<Rightarrow> error + 's) \<Rightarrow> string \<Rightarrow> 's world \<Rightarrow> error option \<times> 's world" where
  "db_ExecContext sem q w =
     (case send (ReqExec q) w of
        (Some e, w1) \<Rightarrow> (Some e, w1)
      | (None, w1) \<Rightarrow>
          (case parse_stmt q of
             StEnsureLedger \<Rightarrow> (None, w1\<lparr>durable := ensure_ledger (durable w1)\<rparr>)
           | StOther q' \<Rightarrow>
               (case sem q' (schema (durable w1)) of
                  Inl e \<Rightarrow> (Some e, w1)
                | Inr s \<Rightarrow> (None, w1\<lparr>durable := (durable w1)\<lparr>schema := s\<rparr>\<rparr>))
           | _ \<Rightarrow> (Some no_transaction, w1)))"

text \<open>\<open>SELECT id, checksum FROM _dbkit_migrations\<close>, scanned into rows.\<close>

definition db_SelectLedger :: "'s world \<Rightarrow> (error + (string \<times> string) list) \<times> 's world" where
  "db_SelectLedger w =
     (case send ReqSelectLedger w of
        (Some e, w1) \<Rightarrow> (Inl e, w1)
      | (None, w1) \<Rightarrow>
          (case ledger (durable w1) of
             None \<Rightarrow> (Inl undefined_table, w1)
           | Some rows \<Rightarrow> (Inr (map (\<lambda>r. (row_id r, row_checksum r)) rows), w1)))"

subsection \<open>The physical transaction (\<open>sql.Tx\<close>)\<close>

text \<open>\<open>db.DB.BeginTx\<close>: a new physical transaction on a copy of the persisted data.\<close>

definition BeginTx :: "TxOptions \<Rightarrow> 's world \<Rightarrow> (error \<times> 's world) + 's txstate" where
  "BeginTx opts w =
     (case send (ReqBegin opts) w of
        (Some e, w1) \<Rightarrow> Inl (e, w1)
      | (None, w1) \<Rightarrow>
          Inr \<lparr>srv = w1, tx_done = False, work = durable w1, saves = [], savepointSeq = 0\<rparr>)"

text \<open>
  \<open>sql.Tx.Commit\<close> and \<open>sql.Tx.Rollback\<close>: a finished transaction answers
  \<open>ErrTxDone\<close>; otherwise the transaction is finished whatever the driver answers, and
  only a commit without fault persists the working copy.
\<close>

definition sqlTx_Commit :: "'s txstate \<Rightarrow> error option \<times> 's txstate" where
  "sqlTx_Commit st =
     (if tx_done st then (Some ErrTxDone, st)
      else case tx_send ReqCommit (st\<lparr>tx_done := True\<rparr>) of
        (Some e, st1) \<Rightarrow> (Some e, st1)
      | (None, st1) \<Rightarrow> (None, st1\<lparr>srv := (srv st1)\<lparr>durable := work st1\<rparr>\<rparr>))"

definition sqlTx_Rollback :: "'s txstate \<Rightarrow> error option \<times> 's txstate" where
  "sqlTx_Rollback st =
     (if tx_done st then (Some ErrTxDone, st)
      else tx_send ReqRollback (st\<lparr>tx_done := True\<rparr>))"

definition apply_stmt ::
  "(string \<Rightarrow> 's \<Rightarrow> error + 's) \<Rightarrow> string \<Rightarrow> 's txstate \<Rightarrow> error option \<times> 's txstate" where
  "apply_stmt sem q st =
     (case parse_stmt q of
        StEnsureLedger \<Rightarrow> (None, st\<lparr>work := ensure_ledger (work st)\<rparr>)
      | StSavepoint n \<Rightarrow> (None, st\<lparr>saves := (n, work st) # saves st\<rparr>)
      | StRollbackTo n \<Rightarrow>
          (case dropWhile (\<lambda>s. fst s \<noteq> n) (saves st) of
             [] \<Rightarrow> (Some (no_savepoint n), st)
           | s # rest \<Rightarrow> (None, st\<lparr>work := snd s, saves := s # rest\<rparr>))
      | StRelease n \<Rightarrow>
          (case dropWhile (\<lambda>s. fst s \<noteq> n) (saves st) of
             [] \<Rightarrow> (Some (no_savepoint n), st)
           | s # rest \<Rightarrow> (None, st\<lparr>saves := rest\<rparr>))
      | StOther q' \<Rightarrow>
          (case sem q' (schema (work st)) of
             Inl e \<Rightarrow> (Some e, st)
           | Inr s \<Rightarrow> (None, st\<lparr>work := (work st)\<lparr>schema := s\<rparr>\<rparr>)))"

text \<open>\<open>tx.ExecContext\<close> (promoted from \<open>bun.Tx\<close>) and the raw \<open>INSERT\<close> of the ledger row.\<close>

definition Tx_ExecContext ::
  "(string \<Rightarrow> 's \<Rightarrow> error + 's) \<Rightarrow> string \<Rightarrow> 's txstate \<Rightarrow> error option \<times> 's txstate" where
  "Tx_ExecContext sem q st =
     (if tx_done st then (Some ErrTxDone, st)
      else case tx_send (ReqExec q) st of
        (Some e, st1) \<Rightarrow> (Some e, st1)
      | (None, st1) \<Rightarrow> apply_stmt sem q st1)"

definition Tx_InsertLedger ::
  "string \<Rightarrow> string \<Rightarrow> string \<Rightarrow> 's txstate \<Rightarrow> error option \<times> 's txstate" where
  "Tx_InsertLedger i d c st =
     (if tx_done st then (Some ErrTxDone, st)
      else case tx_send (ReqInsertLedger i d c) st of
        (Some e, st1) \<Rightarrow> (Some e, st1)
      | (None, st1) \<Rightarrow>
          (case insert_row \<lparr>row_id = i, row_description = d, row_checksum = c\<rparr> (work st1) of
             Inl e \<Rightarrow> (Some e, st1)
           | Inr d' \<Rightarrow> (None, st1\<lparr>work := d'\<rparr>)))"


section \<open>Transactions (tx.go)\<close>

text \<open>
  The Go struct \<open>Tx\<close> holds \<open>bun.Tx\<close>, \<open>db\<close>, \<open>savepointID\<close> and the pointer
  \<open>savepointSeq\<close>. The first, second and fourth are references to shared objects: they
  are the \<open>txstate\<close> every function takes and returns. What is left of the value itself
  is \<open>savepointID\<close>.
\<close>

record Tx =
  savepointID :: "64 word"

text \<open>
  A Go call returns, or panics with a value of some type \<open>'p\<close>. A callback
  (\<open>TxFunc\<close>) is any function of the scope and the state that returns an \<open>error\<close> (or nil)
  or panics.
\<close>

datatype ('a, 'p) outcome = Returns 'a | Panics 'p

type_synonym ('s, 'p) TxFunc = "Tx \<Rightarrow> 's txstate \<Rightarrow> (error option, 'p) outcome \<times> 's txstate"

definition DefaultTxOptions :: TxOptions where
  "DefaultTxOptions = \<lparr>Isolation = LevelDefault, ReadOnly = False\<rparr>"

definition ReadOnlyTxOptions :: TxOptions where
  "ReadOnlyTxOptions = \<lparr>Isolation = LevelDefault, ReadOnly = True\<rparr>"

definition SerializableTxOptions :: TxOptions where
  "SerializableTxOptions = \<lparr>Isolation = LevelSerializable, ReadOnly = False\<rparr>"

definition Tx_Commit :: "'s txstate \<Rightarrow> error option \<times> 's txstate" where
  "Tx_Commit st =
     (case sqlTx_Commit st of
        (Some err, st1) \<Rightarrow> (wrapError (Some err) ''Commit'', st1)
      | (None, st1) \<Rightarrow> (None, st1))"

definition Tx_Rollback :: "'s txstate \<Rightarrow> error option \<times> 's txstate" where
  "Tx_Rollback st =
     (case sqlTx_Rollback st of
        (Some err, st1) \<Rightarrow>
          if err = ErrTxDone then (None, st1)
          else (wrapError (Some err) ''Rollback'', st1)
      | (None, st1) \<Rightarrow> (None, st1))"

text \<open>
  \<open>TransactionWithOptions\<close>. The deferred function is the \<open>Panics\<close> branch: it calls
  \<open>Rollback\<close>, drops its result and panics again with the same value.
\<close>

definition TransactionWithOptions ::
  "TxOptions \<Rightarrow> ('s, 'p) TxFunc \<Rightarrow> 's world \<Rightarrow> (error option, 'p) outcome \<times> 's world" where
  "TransactionWithOptions opts fn w =
     (case BeginTx opts w of
        Inl (err, w1) \<Rightarrow> (Returns (wrapError (Some err) ''Transaction.Begin''), w1)
      | Inr bunTx \<Rightarrow>
          (let st = bunTx\<lparr>savepointSeq := 0\<rparr>;
               tx = \<lparr>savepointID = 0\<rparr>
           in case fn tx st of
             (Panics p, st1) \<Rightarrow>
               (case Tx_Rollback st1 of (rbErr, st2) \<Rightarrow> (Panics p, srv st2))
           | (Returns (Some err), st1) \<Rightarrow>
               (case Tx_Rollback st1 of
                  (Some rbErr, st2) \<Rightarrow>
                    (Returns (Some (Errorf (''dbkit: rollback failed: '' @ err_string rbErr @
                                            '' (original error: '' @ err_string err @ '')'') err)),
                     srv st2)
                | (None, st2) \<Rightarrow> (Returns (Some err), srv st2))
           | (Returns None, st1) \<Rightarrow>
               (case Tx_Commit st1 of
                  (Some err, st2) \<Rightarrow> (Returns (wrapError (Some err) ''Transaction.Commit''), srv st2)
                | (None, st2) \<Rightarrow> (Returns None, srv st2))))"

definition Transaction :: "('s, 'p) TxFunc \<Rightarrow> 's world \<Rightarrow> (error option, 'p) outcome \<times> 's world" where
  "Transaction fn w = TransactionWithOptions DefaultTxOptions fn w"

definition ReadOnlyTransaction ::
  "('s, 'p) TxFunc \<Rightarrow> 's world \<Rightarrow> (error option, 'p) outcome \<times> 's world" where
  "ReadOnlyTransaction fn w = TransactionWithOptions ReadOnlyTxOptions fn w"

text \<open>\<open>BeginWithOptions\<close> and \<open>Begin\<close>: the scope for manual control, or the error.\<close>

definition BeginWithOptions :: "TxOptions \<Rightarrow> 's world \<Rightarrow> (error \<times> 's world) + (Tx \<times> 's txstate)" where
  "BeginWithOptions opts w =
     (case BeginTx opts w of
        Inl (err, w1) \<Rightarrow> Inl (wrapError_nonnil err ''Begin'', w1)
      | Inr bunTx \<Rightarrow> Inr (\<lparr>savepointID = 0\<rparr>, bunTx\<lparr>savepointSeq := 0\<rparr>))"

definition Begin :: "'s world \<Rightarrow> (error \<times> 's world) + (Tx \<times> 's txstate)" where
  "Begin w = BeginWithOptions DefaultTxOptions w"

text \<open>\<open>fmt.Sprintf("%d", i)\<close> for an integer: decimal digits, a minus sign first if negative.\<close>

fun digits :: "nat \<Rightarrow> string" where
  "digits n =
     (if n < 10 then [''0123456789'' ! n]
      else digits (n div 10) @ [''0123456789'' ! (n mod 10)])"

declare digits.simps [simp del]

definition format_d :: "int \<Rightarrow> string" where
  "format_d i = (if i < 0 then CHR ''-'' # digits (nat (- i)) else digits (nat i))"

text \<open>\<open>fmt.Sprintf("sp_%d", id)\<close> for the \<open>int64\<close> value \<open>n\<close>.\<close>

definition savepoint_name :: "64 word \<Rightarrow> string" where
  "savepoint_name n = ''sp_'' @ format_d (sint n)"

text \<open>
  \<open>Tx.Transaction\<close>: the nested scope. \<open>atomic.AddInt64\<close> adds one to the shared cell
  (wrapping, as \<open>int64\<close> does) and returns the new value, \<open>id\<close> in the source and
  \<open>id'\<close> here.
\<close>

definition Tx_Transaction ::
  "(string \<Rightarrow> 's \<Rightarrow> error + 's) \<Rightarrow> Tx \<Rightarrow> ('s, 'p) TxFunc \<Rightarrow> 's txstate
     \<Rightarrow> (error option, 'p) outcome \<times> 's txstate" where
  "Tx_Transaction sem tx fn st =
     (let id' = savepointSeq st + 1;
          st0 = st\<lparr>savepointSeq := id'\<rparr>;
          savepoint = savepoint_name id'
      in case Tx_ExecContext sem (''SAVEPOINT '' @ savepoint) st0 of
        (Some err, st1) \<Rightarrow> (Returns (wrapError (Some err) ''Transaction.Savepoint''), st1)
      | (None, st1) \<Rightarrow>
          (let nestedTx = \<lparr>savepointID = id'\<rparr>
           in case fn nestedTx st1 of
             (Panics p, st2) \<Rightarrow> (Panics p, st2)
           | (Returns (Some err), st2) \<Rightarrow>
               (case Tx_ExecContext sem (''ROLLBACK TO SAVEPOINT '' @ savepoint) st2 of
                  (Some rbErr, st3) \<Rightarrow>
                    (Returns (Some (Errorf (''dbkit: savepoint rollback failed: '' @ err_string rbErr @
                                            '' (original error: '' @ err_string err @ '')'') err)),
                     st3)
                | (None, st3) \<Rightarrow> (Returns (Some err), st3))
           | (Returns None, st2) \<Rightarrow>
               (case Tx_ExecContext sem (''RELEASE SAVEPOINT '' @ savepoint) st2 of
                  (Some err, st3) \<Rightarrow>
                    (Returns (wrapError (Some err) ''Transaction.ReleaseSavepoint''), st3)
                | (None, st3) \<Rightarrow> (Returns None, st3))))"




section \<open>Migrations (the migration part of softdelete.go)\<close>

text \<open>
  The structs of the source without their time fields (\<open>AppliedAt\<close>, \<open>Duration\<close>,
  \<open>TotalTime\<close>). The fields of \<open>AppliedMigration\<close> and \<open>MigrationStatusEntry\<close> carry a
  prefix, since one theory cannot have two records with a field \<open>ID\<close>.
\<close>

record Migration =
  ID :: string
  Description :: string
  SQL :: string

record AppliedMigration =
  am_ID :: string
  am_Description :: string
  am_Checksum :: string

record MigrationResult =
  Applied :: "AppliedMigration list"
  Skipped :: "string list"

record MigrationStatusEntry =
  se_ID :: string
  se_Description :: string
  se_Checksum :: string
  se_Applied :: bool
  se_ChecksumMatch :: bool

text \<open>
  \<open>checksumSQL\<close>: \<open>hex.EncodeToString\<close> of \<open>sha256.Sum256\<close>. The hash function is a
  parameter \<open>Sum256\<close>; the lowercase hexadecimal rendering is written out.
\<close>

definition EncodeToString :: "8 word list \<Rightarrow> string" where
  "EncodeToString bs =
     concat (map (\<lambda>b. [''0123456789abcdef'' ! (unat b div 16),
                        ''0123456789abcdef'' ! (unat b mod 16)]) bs)"

definition checksumSQL :: "(string \<Rightarrow> 8 word list) \<Rightarrow> string \<Rightarrow> string" where
  "checksumSQL Sum256 sql = EncodeToString (Sum256 sql)"

definition truncateSQL :: "string \<Rightarrow> nat \<Rightarrow> string" where
  "truncateSQL sql maxLen = (if length sql \<le> maxLen then sql else take maxLen sql @ ''...'')"

definition getAppliedMigrations :: "'s world \<Rightarrow> (error + (string \<rightharpoonup> string)) \<times> 's world" where
  "getAppliedMigrations w =
     (case db_SelectLedger w of
        (Inl err, w1) \<Rightarrow> (Inl (wrapError_nonnil err ''Migrate.GetApplied''), w1)
      | (Inr rows, w1) \<Rightarrow>
          (Inr (foldl (\<lambda>result row. result(fst row \<mapsto> snd row)) Map.empty rows), w1))"

text \<open>The function literal that \<open>applyMigration\<close> passes to \<open>db.Transaction\<close>.\<close>

definition applyMigration_fn ::
  "(string \<Rightarrow> 's \<Rightarrow> error + 's) \<Rightarrow> Migration \<Rightarrow> string \<Rightarrow> ('s, 'p) TxFunc" where
  "applyMigration_fn sem m checksum tx st =
     (case Tx_ExecContext sem (SQL m) st of
        (Some err, st1) \<Rightarrow>
          (Returns (Some (DbkitError CodeUnknown
                            (''migration '' @ ID m @ '' failed: '' @ err_string err)
                            ''Migrate.Apply'' [] [] [] [] [] (truncateSQL (SQL m) 200) (Some err))),
           st1)
      | (None, st1) \<Rightarrow>
          (case Tx_InsertLedger (ID m) (Description m) checksum st1 of
             (Some err, st2) \<Rightarrow> (Returns (wrapError (Some err) ''Migrate.Record''), st2)
           | (None, st2) \<Rightarrow> (Returns None, st2)))"

definition applyMigration ::
  "(string \<Rightarrow> 's \<Rightarrow> error + 's) \<Rightarrow> Migration \<Rightarrow> string \<Rightarrow> 's world
     \<Rightarrow> (error option, 'p) outcome \<times> 's world" where
  "applyMigration sem m checksum w = Transaction (applyMigration_fn sem m checksum) w"

text \<open>The \<open>for\<close> loop of \<open>Migrate\<close>, with the map \<open>applied\<close> read before it.\<close>

fun migrate_loop ::
  "(string \<Rightarrow> 8 word list) \<Rightarrow> (string \<Rightarrow> 's \<Rightarrow> error + 's) \<Rightarrow> (string \<rightharpoonup> string)
     \<Rightarrow> Migration list \<Rightarrow> MigrationResult \<Rightarrow> 's world
     \<Rightarrow> (error + MigrationResult, 'p) outcome \<times> 's world" where
  "migrate_loop Sum256 sem applied [] result w = (Returns (Inr result), w)"
| "migrate_loop Sum256 sem applied (m # ms) result w =
     (let checksum = checksumSQL Sum256 (SQL m)
      in case applied (ID m) of
        Some existing \<Rightarrow>
          if existing \<noteq> checksum
          then (Returns (Inl (mkError CodeUnknown
                 (''migration '' @ ID m @ '' has changed (checksum mismatch: expected '' @
                  existing @ '', got '' @ checksum @ '')'') ''Migrate'' None)), w)
          else migrate_loop Sum256 sem applied ms (result\<lparr>Skipped := Skipped result @ [ID m]\<rparr>) w
      | None \<Rightarrow>
          (case applyMigration sem m checksum w of
             (Panics p, w1) \<Rightarrow> (Panics p, w1)
           | (Returns (Some err), w1) \<Rightarrow> (Returns (Inl err), w1)
           | (Returns None, w1) \<Rightarrow>
               migrate_loop Sum256 sem applied ms
                 (result\<lparr>Applied := Applied result @
                    [\<lparr>am_ID = ID m, am_Description = Description m, am_Checksum = checksum\<rparr>]\<rparr>) w1))"

definition Migrate ::
  "(string \<Rightarrow> 8 word list) \<Rightarrow> (string \<Rightarrow> 's \<Rightarrow> error + 's) \<Rightarrow> Migration list \<Rightarrow> 's world
     \<Rightarrow> (error + MigrationResult, 'p) outcome \<times> 's world" where
  "Migrate Sum256 sem migrations w =
     (case db_ExecContext sem migrationsTable w of
        (Some err, w1) \<Rightarrow>
          (Returns (Inl (mkError CodeUnknown ''failed to create migrations table'' ''Migrate''
                           (Some err))), w1)
      | (None, w1) \<Rightarrow>
          (case getAppliedMigrations w1 of
             (Inl err, w2) \<Rightarrow> (Returns (Inl err), w2)
           | (Inr applied, w2) \<Rightarrow>
               migrate_loop Sum256 sem applied migrations \<lparr>Applied = [], Skipped = []\<rparr> w2))"

definition MigrationStatus ::
  "(string \<Rightarrow> 8 word list) \<Rightarrow> (string \<Rightarrow> 's \<Rightarrow> error + 's) \<Rightarrow> Migration list \<Rightarrow> 's world
     \<Rightarrow> (error + MigrationStatusEntry list) \<times> 's world" where
  "MigrationStatus Sum256 sem migrations w =
     (case db_ExecContext sem migrationsTable w of
        (Some err, w1) \<Rightarrow>
          (Inl (mkError CodeUnknown ''failed to create migrations table'' ''MigrationStatus''
                  (Some err)), w1)
      | (None, w1) \<Rightarrow>
          (case getAppliedMigrations w1 of
             (Inl err, w2) \<Rightarrow> (Inl err, w2)
           | (Inr applied, w2) \<Rightarrow>
               (Inr (map (\<lambda>m.
                      let checksum = checksumSQL Sum256 (SQL m)
                      in case applied (ID m) of
                           Some appliedChecksum \<Rightarrow>
                             \<lparr>se_ID = ID m, se_Description = Description m, se_Checksum = checksum,
                              se_Applied = True, se_ChecksumMatch = (appliedChecksum = checksum)\<rparr>
                         | None \<Rightarrow>
                             \<lparr>se_ID = ID m, se_Description = Description m, se_Checksum = checksum,
                              se_Applied = False, se_ChecksumMatch = False\<rparr>) migrations), w2)))"


section \<open>Callbacks that work through the scope\<close>

text \<open>
  A callback of the source is any Go function. The properties of nested scopes are
  about callbacks that reach the database through the scope they are given. A \<open>script\<close>
  is such a callback, written as a tree: return an error or nil; panic; call
  \<open>tx.ExecContext\<close> with a statement and go on according to the error it returns; call
  \<open>tx.Transaction\<close> with a callback of the same kind and go on according to the error
  it returns. \<open>run\<close> is the \<open>TxFunc\<close> of a script.
\<close>

datatype 'p script =
    Return "error option"
  | Panic 'p
  | Exec string "error option \<Rightarrow> 'p script"
  | Nested "'p script" "error option \<Rightarrow> 'p script"

primrec run :: "(string \<Rightarrow> 's \<Rightarrow> error + 's) \<Rightarrow> 'p script \<Rightarrow> ('s, 'p) TxFunc" where
  "run sem (Return e) = (\<lambda>tx st. (Returns e, st))"
| "run sem (Panic p) = (\<lambda>tx st. (Panics p, st))"
| "run sem (Exec q k) =
     (\<lambda>tx st. case Tx_ExecContext sem q st of (e, st1) \<Rightarrow> run sem (k e) tx st1)"
| "run sem (Nested body k) =
     (\<lambda>tx st. case Tx_Transaction sem tx (run sem body) st of
        (Panics p, st1) \<Rightarrow> (Panics p, st1)
      | (Returns e, st1) \<Rightarrow> run sem (k e) tx st1)"



text \<open>
  \<open>savepoints_of reqs\<close> lists the names of the savepoints that the requests \<open>reqs\<close>
  create, in order. \<open>scope_names s k\<close> lists the names formatted from the \<open>k\<close> values
  of the counter that follow \<open>s\<close>. \<open>scope_run st st' new k\<close> relates the states before
  and after a piece of work inside an open transaction: the requests \<open>new\<close> were sent,
  they created the savepoints of the next \<open>k\<close> counter values, the counter has advanced
  by \<open>k\<close>, the transaction is open, nothing is persisted, and the savepoint stack has
  grown, if at all, by savepoints with these names.
\<close>

definition savepoints_of :: "request list \<Rightarrow> string list" where
  "savepoints_of reqs =
     concat (map (\<lambda>r. case r of
                      ReqExec q \<Rightarrow> (case strip_prefix ''SAVEPOINT '' q of Some n \<Rightarrow> [n] | None \<Rightarrow> [])
                    | _ \<Rightarrow> []) reqs)"

definition scope_names :: "64 word \<Rightarrow> nat \<Rightarrow> string list" where
  "scope_names s k = map (\<lambda>j. savepoint_name (s + of_nat j)) [1..<Suc k]"


section \<open>Notions used to state the properties\<close>

text \<open>
  \<open>ledger_map d\<close> is the map from id to checksum that \<open>getAppliedMigrations\<close> builds
  from the ledger of \<open>d\<close>. \<open>migration_trace\<close> is the sequence of requests of one
  migration that goes through, \<open>applied_entry\<close> the entry \<open>Migrate\<close> appends to
  \<open>Applied\<close> for it. \<open>ledger_grows d d'\<close> says that the ledger of \<open>d'\<close> is the ledger
  of \<open>d\<close> followed by rows with ids that \<open>d\<close> does not have.
\<close>

definition ledger_map :: "'s dbdata \<Rightarrow> (string \<rightharpoonup> string)" where
  "ledger_map d =
     foldl (\<lambda>result row. result(fst row \<mapsto> snd row)) Map.empty
       (map (\<lambda>r. (row_id r, row_checksum r)) (ledger_rows d))"

definition migration_trace :: "(string \<Rightarrow> 8 word list) \<Rightarrow> Migration \<Rightarrow> request list" where
  "migration_trace Sum256 m =
     [ReqBegin DefaultTxOptions, ReqExec (SQL m),
      ReqInsertLedger (ID m) (Description m) (checksumSQL Sum256 (SQL m)), ReqCommit]"

definition applied_entry :: "(string \<Rightarrow> 8 word list) \<Rightarrow> Migration \<Rightarrow> AppliedMigration" where
  "applied_entry Sum256 m =
     \<lparr>am_ID = ID m, am_Description = Description m, am_Checksum = checksumSQL Sum256 (SQL m)\<rparr>"

definition ledger_grows :: "'s dbdata \<Rightarrow> 's dbdata \<Rightarrow> bool" where
  "ledger_grows d d' =
     (\<exists>ext. ledger_rows d' = ledger_rows d @ ext \<and>
            row_id ` set ext \<inter> row_id ` set (ledger_rows d) = {})"

section \<open>Concrete inputs\<close>

text \<open>
  A schema that is the list of the statements applied to it, a statement semantics that
  refuses every text starting with \<open>INVALID\<close>, and a stand-in for the hash function
  (the bytes of the text itself). They are the inputs at which the theorems below are
  evaluated.
\<close>

definition demo_sem :: "string \<Rightarrow> string list \<Rightarrow> error + string list" where
  "demo_sem q s = (if take 7 q = ''INVALID'' then Inl (Plain ''syntax error'') else Inr (s @ [q]))"

definition demo_Sum256 :: "string \<Rightarrow> 8 word list" where
  "demo_Sum256 sql = map (\<lambda>c. of_nat (of_char c)) sql"

definition empty_world :: "string list world" where
  "empty_world = \<lparr>durable = \<lparr>schema = [], ledger = None\<rparr>, log = [], faults = []\<rparr>"

text \<open>
  Three migrations, the second with a text the database refuses; the first one again
  with another text; two migrations whose ids sort against their order; and the worlds
  that runs of \<open>Migrate\<close> on them go through.
\<close>

definition M1 :: Migration where
  "M1 = \<lparr>ID = ''001'', Description = ''first'', SQL = ''CREATE a''\<rparr>"

definition M2 :: Migration where
  "M2 = \<lparr>ID = ''002'', Description = ''second'', SQL = ''INVALID b''\<rparr>"

definition M3 :: Migration where
  "M3 = \<lparr>ID = ''003'', Description = ''third'', SQL = ''CREATE c''\<rparr>"

definition M1_changed :: Migration where
  "M1_changed = \<lparr>ID = ''001'', Description = ''first'', SQL = ''CREATE b''\<rparr>"

definition Mb :: Migration where
  "Mb = \<lparr>ID = ''b_002'', Description = ''b'', SQL = ''CREATE b''\<rparr>"

definition Ma :: Migration where
  "Ma = \<lparr>ID = ''a_001'', Description = ''a'', SQL = ''CREATE a''\<rparr>"

definition world_after_M1 :: "string list world" where
  "world_after_M1 =
     \<lparr>durable = \<lparr>schema = [''CREATE a''],
                 ledger = Some [\<lparr>row_id = ''001'', row_description = ''first'',
                                 row_checksum = ''4352454154452061''\<rparr>]\<rparr>,
      log = [ReqExec migrationsTable, ReqSelectLedger, ReqBegin DefaultTxOptions, ReqExec ''CREATE a'',
             ReqInsertLedger ''001'' ''first'' ''4352454154452061'', ReqCommit],
      faults = []\<rparr>"

definition world_ready :: "string list world" where
  "world_ready = \<lparr>durable = \<lparr>schema = [], ledger = Some []\<rparr>,
                   log = [ReqExec migrationsTable, ReqSelectLedger], faults = []\<rparr>"

definition world_after_Mb :: "string list world" where
  "world_after_Mb =
     \<lparr>durable = \<lparr>schema = [''CREATE b''],
                 ledger = Some [\<lparr>row_id = ''b_002'', row_description = ''b'',
                                 row_checksum = ''4352454154452062''\<rparr>]\<rparr>,
      log = [ReqExec migrationsTable, ReqSelectLedger, ReqBegin DefaultTxOptions, ReqExec ''CREATE b'',
             ReqInsertLedger ''b_002'' ''b'' ''4352454154452062'', ReqCommit],
      faults = []\<rparr>"

definition world_after_Mb_Ma :: "string list world" where
  "world_after_Mb_Ma =
     \<lparr>durable = \<lparr>schema = [''CREATE b'', ''CREATE a''],
                 ledger = Some [\<lparr>row_id = ''b_002'', row_description = ''b'',
                                 row_checksum = ''4352454154452062''\<rparr>,
                                \<lparr>row_id = ''a_001'', row_description = ''a'',
                                 row_checksum = ''4352454154452061''\<rparr>]\<rparr>,
      log = [ReqExec migrationsTable, ReqSelectLedger,
             ReqBegin DefaultTxOptions, ReqExec ''CREATE b'',
             ReqInsertLedger ''b_002'' ''b'' ''4352454154452062'', ReqCommit,
             ReqBegin DefaultTxOptions, ReqExec ''CREATE a'',
             ReqInsertLedger ''a_001'' ''a'' ''4352454154452061'', ReqCommit],
      faults = []\<rparr>"

text \<open>
  A world whose second request fails (the connection is lost when the rollback is sent),
  the transactions begun on it and on the empty world, the world after the rollback, and
  two callbacks: one panics, one returns an error.
\<close>

definition world_losing_rollback :: "string list world" where
  "world_losing_rollback = empty_world\<lparr>faults := [None, Some (Plain ''connection lost'')]\<rparr>"

definition begun_losing_rollback :: "string list txstate" where
  "begun_losing_rollback =
     \<lparr>srv = \<lparr>durable = \<lparr>schema = [], ledger = None\<rparr>, log = [ReqBegin DefaultTxOptions],
             faults = [Some (Plain ''connection lost'')]\<rparr>,
      tx_done = False, work = \<lparr>schema = [], ledger = None\<rparr>, saves = [], savepointSeq = 0\<rparr>"

definition begun_empty :: "string list txstate" where
  "begun_empty =
     \<lparr>srv = \<lparr>durable = \<lparr>schema = [], ledger = None\<rparr>, log = [ReqBegin DefaultTxOptions],
             faults = []\<rparr>,
      tx_done = False, work = \<lparr>schema = [], ledger = None\<rparr>, saves = [], savepointSeq = 0\<rparr>"

definition world_rolled_back :: "string list world" where
  "world_rolled_back =
     \<lparr>durable = \<lparr>schema = [], ledger = None\<rparr>, log = [ReqBegin DefaultTxOptions, ReqRollback],
      faults = []\<rparr>"

definition panicking_fn :: "(string list, string) TxFunc" where
  "panicking_fn tx st = (Panics ''boom'', st)"

definition failing_fn :: "(string list, string) TxFunc" where
  "failing_fn tx st = (Returns (Some (Plain ''callback failed'')), st)"











definition world_status_run :: "string list world" where
  "world_status_run =
     \<lparr>durable = \<lparr>schema = [], ledger = Some []\<rparr>,
      log = [ReqExec migrationsTable, ReqSelectLedger], faults = []\<rparr>"

section \<open>The physical transaction is finished by commit and by rollback\<close>

lemma sqlTx_Commit_done: "tx_done (snd (sqlTx_Commit st))"
  by (simp add: sqlTx_Commit_def tx_send_def send_def split: prod.splits option.splits list.splits)

lemma sqlTx_Rollback_done: "tx_done (snd (sqlTx_Rollback st))"
  by (simp add: sqlTx_Rollback_def tx_send_def send_def split: prod.splits option.splits list.splits)

lemma Tx_Commit_done: "tx_done (snd (Tx_Commit st))"
  using sqlTx_Commit_done [of st]
  by (auto simp: Tx_Commit_def wrapError_def split: prod.splits option.splits)

lemma Tx_Rollback_done: "tx_done (snd (Tx_Rollback st))"
  using sqlTx_Rollback_done [of st]
  by (auto simp: Tx_Rollback_def wrapError_def split: prod.splits option.splits)

lemma Tx_Rollback_when_done: "tx_done st \<Longrightarrow> Tx_Rollback st = (None, st)"
  by (simp add: Tx_Rollback_def sqlTx_Rollback_def)

lemma Tx_Rollback_open:
  "\<not> tx_done st \<Longrightarrow>
     log (srv (snd (Tx_Rollback st))) = log (srv st) @ [ReqRollback] \<and>
     durable (srv (snd (Tx_Rollback st))) = durable (srv st)"
  by (auto simp: Tx_Rollback_def sqlTx_Rollback_def tx_send_def send_def wrapError_def
      split: prod.splits option.splits list.splits)

text \<open>
  Claim C7. \<open>Rollback\<close> on a scope that \<open>Commit\<close> or \<open>Rollback\<close> has already been called
  on returns nil and changes nothing, whatever that first call returned; so two
  \<open>Rollback\<close> calls in a row, the first of which succeeded, both return nil.
\<close>

theorem Rollback_idempotent:
  "Tx_Rollback (snd (Tx_Commit st)) = (None, snd (Tx_Commit st)) \<and>
   Tx_Rollback (snd (Tx_Rollback st)) = (None, snd (Tx_Rollback st))"
  by (simp add: Tx_Rollback_when_done Tx_Commit_done Tx_Rollback_done)

section \<open>What each request changes\<close>

lemma send_frame:
  "send r w = (f, w') \<Longrightarrow> durable w' = durable w \<and> log w' = log w @ [r]"
  by (auto simp: send_def split: list.splits)

lemma tx_send_frame:
  "tx_send r st = (f, st') \<Longrightarrow>
     durable (srv st') = durable (srv st) \<and> log (srv st') = log (srv st) @ [r] \<and>
     tx_done st' = tx_done st \<and> work st' = work st \<and> saves st' = saves st \<and>
     savepointSeq st' = savepointSeq st"
  by (auto simp: tx_send_def split: prod.splits dest: send_frame)

lemma wrapError_nonnil_as_Error: "as_Error (wrapError_nonnil e op) \<noteq> None"
  by (auto simp: wrapError_nonnil_def mkError_def wrapPgError_def Let_def split: option.splits)

lemma apply_stmt_frame:
  "apply_stmt sem q st = (r, st') \<Longrightarrow>
     srv st' = srv st \<and> tx_done st' = tx_done st \<and> savepointSeq st' = savepointSeq st"
  by (auto simp: apply_stmt_def split: stmt.splits list.splits sum.splits)

lemma apply_stmt_fresh:
  "apply_stmt sem q st = (r, st') \<Longrightarrow> saves st = [] \<Longrightarrow>
     ledger_rows (work st') = ledger_rows (work st) \<and>
     (ledger (work st) \<noteq> None \<longrightarrow> ledger (work st') = ledger (work st))"
  by (auto simp: apply_stmt_def ledger_rows_def ensure_ledger_def split: stmt.splits list.splits sum.splits option.splits)

lemma Tx_ExecContext_frame:
  "Tx_ExecContext sem q st = (r, st') \<Longrightarrow>
     durable (srv st') = durable (srv st) \<and> tx_done st' = tx_done st \<and>
     savepointSeq st' = savepointSeq st \<and>
     log (srv st') = (if tx_done st then log (srv st) else log (srv st) @ [ReqExec q])"
  by (auto simp: Tx_ExecContext_def split: if_splits prod.splits option.splits
      dest!: tx_send_frame apply_stmt_frame)

lemma Tx_ExecContext_fresh:
  "Tx_ExecContext sem q st = (r, st') \<Longrightarrow> saves st = [] \<Longrightarrow>
     ledger_rows (work st') = ledger_rows (work st) \<and>
     (ledger (work st) \<noteq> None \<longrightarrow> ledger (work st') = ledger (work st))"
  by (auto simp: Tx_ExecContext_def split: if_splits prod.splits option.splits
      dest!: tx_send_frame apply_stmt_fresh)

lemma Tx_InsertLedger_frame:
  "Tx_InsertLedger i d c st = (r, st') \<Longrightarrow>
     durable (srv st') = durable (srv st) \<and> tx_done st' = tx_done st \<and>
     log (srv st') = (if tx_done st then log (srv st) else log (srv st) @ [ReqInsertLedger i d c])"
  by (auto simp: Tx_InsertLedger_def split: if_splits prod.splits option.splits sum.splits
      dest!: tx_send_frame)

lemma Tx_InsertLedger_ok:
  "Tx_InsertLedger i d c st = (None, st') \<Longrightarrow>
     ledger (work st) \<noteq> None \<and> i \<notin> row_id ` set (ledger_rows (work st)) \<and>
     work st' = (work st)\<lparr>ledger := Some (ledger_rows (work st) @
        [\<lparr>row_id = i, row_description = d, row_checksum = c\<rparr>])\<rparr>"
  by (auto simp: Tx_InsertLedger_def insert_row_def ledger_rows_def
      split: if_splits prod.splits option.splits sum.splits dest!: tx_send_frame)

lemma Tx_Rollback_frame:
  "Tx_Rollback st = (r, st') \<Longrightarrow>
     durable (srv st') = durable (srv st) \<and> tx_done st' \<and>
     log (srv st') = (if tx_done st then log (srv st) else log (srv st) @ [ReqRollback])"
  by (auto simp: Tx_Rollback_def sqlTx_Rollback_def wrapError_def
      split: if_splits prod.splits option.splits dest!: tx_send_frame)

lemma Tx_Commit_frame:
  "Tx_Commit st = (r, st') \<Longrightarrow> \<not> tx_done st \<Longrightarrow>
     durable (srv st') = (if r = None then work st else durable (srv st)) \<and>
     log (srv st') = log (srv st) @ [ReqCommit]"
  by (auto simp: Tx_Commit_def sqlTx_Commit_def wrapError_def
      split: if_splits prod.splits option.splits dest!: tx_send_frame)

lemma wrapError_nonnil_as_Error': "\<exists>y. as_Error (wrapError_nonnil e op) = Some y"
  using wrapError_nonnil_as_Error [of e op] by auto

lemma Tx_Commit_error: "Tx_Commit st = (Some e, st') \<Longrightarrow> as_Error e \<noteq> None"
  by (auto simp: Tx_Commit_def wrapError_def wrapError_nonnil_as_Error' split: prod.splits option.splits)

section \<open>One migration in its transaction\<close>

lemma BeginTx_ok:
  "BeginTx opts w = Inr st \<Longrightarrow>
     durable (srv st) = durable w \<and> log (srv st) = log w @ [ReqBegin opts] \<and>
     \<not> tx_done st \<and> work st = durable w \<and> saves st = [] \<and> savepointSeq st = 0"
  by (auto simp: BeginTx_def split: prod.splits option.splits dest: send_frame)

lemma BeginTx_err:
  "BeginTx opts w = Inl (e, w1) \<Longrightarrow> durable w1 = durable w \<and> log w1 = log w @ [ReqBegin opts]"
  by (auto simp: BeginTx_def split: prod.splits option.splits dest: send_frame)

lemma applyMigration_fn_cases:
  assumes run: "applyMigration_fn sem m c tx st = (r, st1)"
    and op: "\<not> tx_done st" and fresh: "saves st = []"
  shows "durable (srv st1) = durable (srv st) \<and> \<not> tx_done st1 \<and>
     ((\<exists>e. r = Returns (Some e) \<and> as_Error e \<noteq> None) \<or>
      (r = Returns None \<and>
       ledger (work st1) = Some (ledger_rows (work st) @
          [\<lparr>row_id = ID m, row_description = Description m, row_checksum = c\<rparr>]) \<and>
       ID m \<notin> row_id ` set (ledger_rows (work st)) \<and>
       log (srv st1) = log (srv st) @ [ReqExec (SQL m), ReqInsertLedger (ID m) (Description m) c]))"
proof -
  obtain e1 sta where ex: "Tx_ExecContext sem (SQL m) st = (e1, sta)"
    by (cases "Tx_ExecContext sem (SQL m) st") auto
  note f1 = Tx_ExecContext_frame [OF ex] Tx_ExecContext_fresh [OF ex fresh]
  show ?thesis
  proof (cases e1)
    case (Some err)
    with run ex f1 op show ?thesis
      by (auto simp: applyMigration_fn_def)
  next
    case None
    obtain e2 stb where ins: "Tx_InsertLedger (ID m) (Description m) c sta = (e2, stb)"
      by (cases "Tx_InsertLedger (ID m) (Description m) c sta") auto
    note f2 = Tx_InsertLedger_frame [OF ins]
    show ?thesis
    proof (cases e2)
      case (Some err)
      with run ex ins None f1 f2 op show ?thesis
        by (auto simp: applyMigration_fn_def wrapError_def wrapError_nonnil_as_Error')
    next
      case None': None
      from ins None' have ok: "Tx_InsertLedger (ID m) (Description m) c sta = (None, stb)" by simp
      note f3 = Tx_InsertLedger_ok [OF ok]
      from run ex ins None None' f1 f2 f3 op show ?thesis
        by (auto simp: applyMigration_fn_def)
    qed
  qed
qed

lemma applyMigration_cases:
  fixes r :: "(error option, 'p) outcome"
  assumes run: "applyMigration sem m c w = (r, w')"
  shows "(\<exists>e. r = Returns (Some e) \<and> durable w' = durable w \<and> as_Error e \<noteq> None) \<or>
     (r = Returns None \<and>
      ledger (durable w') = Some (ledger_rows (durable w) @
          [\<lparr>row_id = ID m, row_description = Description m, row_checksum = c\<rparr>]) \<and>
      ID m \<notin> row_id ` set (ledger_rows (durable w)) \<and>
      log w' = log w @ [ReqBegin DefaultTxOptions, ReqExec (SQL m),
                        ReqInsertLedger (ID m) (Description m) c, ReqCommit])"
proof (cases "BeginTx DefaultTxOptions w")
  case (Inl a)
  then obtain e w1 where a: "a = (e, w1)" by (cases a) auto
  with Inl run BeginTx_err [of DefaultTxOptions w e w1] show ?thesis
    by (auto simp: applyMigration_def Transaction_def TransactionWithOptions_def wrapError_def
        wrapError_nonnil_as_Error')
next
  case (Inr bunTx)
  note b = BeginTx_ok [OF Inr]
  let ?st = "bunTx\<lparr>savepointSeq := 0\<rparr>"
  obtain r1 :: "(error option, 'p) outcome" and st1
    where fn: "applyMigration_fn sem m c \<lparr>savepointID = 0\<rparr> ?st = (r1, st1)"
    by (metis surj_pair)
  from b have op: "\<not> tx_done ?st" and fresh: "saves ?st = []" by auto
  note c = applyMigration_fn_cases [OF fn op fresh]
  from c consider (err) e where "r1 = Returns (Some e)" "as_Error e \<noteq> None"
    | (ok) "r1 = Returns None" by blast
  then show ?thesis
  proof cases
    case err
    obtain rb st2 where rb: "Tx_Rollback st1 = (rb, st2)" by (cases "Tx_Rollback st1") auto
    note f = Tx_Rollback_frame [OF rb]
    from run Inr fn err rb f b c show ?thesis
      by (cases rb) (auto simp: applyMigration_def Transaction_def TransactionWithOptions_def)
  next
    case ok
    obtain cm st2 where cm: "Tx_Commit st1 = (cm, st2)" by (cases "Tx_Commit st1") auto
    from c have op1: "\<not> tx_done st1" by simp
    note f = Tx_Commit_frame [OF cm op1]
    show ?thesis
    proof (cases cm)
      case None
      from run Inr fn ok cm None f b c show ?thesis
        by (auto simp: applyMigration_def Transaction_def TransactionWithOptions_def)
    next
      case (Some e)
      with cm have "as_Error e \<noteq> None" using Tx_Commit_error by blast
      with run Inr fn ok cm Some f b c show ?thesis
        by (auto simp: applyMigration_def Transaction_def TransactionWithOptions_def wrapError_def
            wrapError_nonnil_def)
    qed
  qed
qed

lemma applyMigration_body_fails:
  fixes w1 :: "'s world"
  assumes begun: "BeginTx DefaultTxOptions w1 = Inr bunTx"
    and fails: "fst (Tx_ExecContext sem (SQL m) (bunTx\<lparr>savepointSeq := 0\<rparr>)) \<noteq> None \<or>
       fst (Tx_InsertLedger (ID m) (Description m) c
              (snd (Tx_ExecContext sem (SQL m) (bunTx\<lparr>savepointSeq := 0\<rparr>)))) \<noteq> None"
  shows "\<exists>e w'. (applyMigration sem m c w1 :: (error option, 'p) outcome \<times> 's world) = (Returns (Some e), w') \<and>
     durable w' = durable w1 \<and> last (log w') = ReqRollback"
proof -
  let ?st = "bunTx\<lparr>savepointSeq := 0\<rparr>"
  note b = BeginTx_ok [OF begun]
  obtain r1 :: "(error option, 'p) outcome" and st1
    where fn: "applyMigration_fn sem m c \<lparr>savepointID = 0\<rparr> ?st = (r1, st1)" by (metis surj_pair)
  from b have op: "\<not> tx_done ?st" and fresh: "saves ?st = []" by auto
  note c = applyMigration_fn_cases [OF fn op fresh]
  from fn fails obtain e where e: "r1 = Returns (Some e)"
    by (auto simp: applyMigration_fn_def wrapError_def split: prod.splits option.splits)
  obtain rb st2 where rb: "Tx_Rollback st1 = (rb, st2)" by (metis surj_pair)
  note f = Tx_Rollback_frame [OF rb]
  from begun fn e rb f b c show ?thesis
    by (cases rb) (auto simp: applyMigration_def Transaction_def TransactionWithOptions_def)
qed

section \<open>The ledger and the loop of Migrate\<close>

lemma foldl_upd_dom:
  "dom (foldl (\<lambda>result row. result(fst row \<mapsto> snd row)) m0 xs) = dom m0 \<union> fst ` set xs"
  by (induction xs arbitrary: m0) auto

lemma ledger_map_dom: "dom (ledger_map d) = row_id ` set (ledger_rows d)"
  by (auto simp: ledger_map_def foldl_upd_dom image_image)

lemma ledger_map_snoc:
  "ledger_rows d' = ledger_rows d @ [r] \<Longrightarrow>
     ledger_map d' = (ledger_map d)(row_id r \<mapsto> row_checksum r)"
  by (simp add: ledger_map_def)

lemma ledger_rows_ensure [simp]: "ledger_rows (ensure_ledger d) = ledger_rows d"
  by (simp add: ledger_rows_def ensure_ledger_def split: option.splits)

lemma schema_ensure [simp]: "schema (ensure_ledger d) = schema d"
  by (simp add: ensure_ledger_def split: option.splits)

lemma ledger_ensure [simp]: "ledger (ensure_ledger d) = Some (ledger_rows d)"
  by (simp add: ledger_rows_def ensure_ledger_def split: option.splits)

lemma ledger_map_ensure [simp]: "ledger_map (ensure_ledger d) = ledger_map d"
  by (simp add: ledger_map_def)

lemma parse_migrationsTable [simp]: "parse_stmt migrationsTable = StEnsureLedger"
  by (simp add: parse_stmt_def)

lemma ensure_table_cases:
  "db_ExecContext sem migrationsTable w = (r, w1) \<Longrightarrow>
     log w1 = log w @ [ReqExec migrationsTable] \<and>
     (case r of None \<Rightarrow> durable w1 = ensure_ledger (durable w)
              | Some e \<Rightarrow> durable w1 = durable w)"
  by (auto simp: db_ExecContext_def split: prod.splits option.splits dest: send_frame)

lemma getAppliedMigrations_cases:
  "getAppliedMigrations w = (r, w1) \<Longrightarrow>
     durable w1 = durable w \<and> log w1 = log w @ [ReqSelectLedger] \<and>
     (case r of Inr applied \<Rightarrow> applied = ledger_map (durable w) \<and> ledger (durable w) \<noteq> None
              | Inl e \<Rightarrow> as_Error e \<noteq> None)"
  by (auto simp: getAppliedMigrations_def db_SelectLedger_def ledger_map_def ledger_rows_def
      wrapError_nonnil_as_Error'
      split: prod.splits option.splits sum.splits dest: send_frame)

lemma migrate_loop_step:
  fixes w w' :: "'s world" and r :: "(error + MigrationResult, 'p) outcome"
  assumes run: "migrate_loop Sum256 sem ap (m # ms) res w = (r, w')"
  obtains
    (drift) existing where "ap (ID m) = Some existing" "existing \<noteq> checksumSQL Sum256 (SQL m)"
      "r = Returns (Inl (mkError CodeUnknown
                 (''migration '' @ ID m @ '' has changed (checksum mismatch: expected '' @
                  existing @ '', got '' @ checksumSQL Sum256 (SQL m) @ '')'') ''Migrate'' None))"
      "w' = w"
  | (skip) "ap (ID m) = Some (checksumSQL Sum256 (SQL m))"
      "migrate_loop Sum256 sem ap ms (res\<lparr>Skipped := Skipped res @ [ID m]\<rparr>) w = (r, w')"
  | (fail) e where "ap (ID m) = None"
      "applyMigration sem m (checksumSQL Sum256 (SQL m)) w
         = (Returns (Some e) :: (error option, 'p) outcome, w')"
      "durable w' = durable w" "as_Error e \<noteq> None" "r = Returns (Inl e)"
  | (ok) w1 where "ap (ID m) = None"
      "applyMigration sem m (checksumSQL Sum256 (SQL m)) w
         = (Returns None :: (error option, 'p) outcome, w1)"
      "ledger (durable w1) = Some (ledger_rows (durable w) @
          [\<lparr>row_id = ID m, row_description = Description m,
            row_checksum = checksumSQL Sum256 (SQL m)\<rparr>])"
      "ID m \<notin> row_id ` set (ledger_rows (durable w))"
      "log w1 = log w @ migration_trace Sum256 m"
      "migrate_loop Sum256 sem ap ms (res\<lparr>Applied := Applied res @ [applied_entry Sum256 m]\<rparr>) w1
         = (r, w')"
proof (cases "ap (ID m)")
  case (Some existing)
  show ?thesis
  proof (cases "existing = checksumSQL Sum256 (SQL m)")
    case True
    with Some run show ?thesis by (intro skip) auto
  next
    case False
    with Some run show ?thesis by (intro drift [of existing]) auto
  qed
next
  case None
  let ?c = "checksumSQL Sum256 (SQL m)"
  obtain r1 :: "(error option, 'p) outcome" and w1
    where am: "applyMigration sem m ?c w = (r1, w1)" by (metis surj_pair)
  from applyMigration_cases [OF am]
  consider (e) e where "r1 = Returns (Some e)" "durable w1 = durable w" "as_Error e \<noteq> None"
    | (s) "r1 = Returns None"
      "ledger (durable w1) = Some (ledger_rows (durable w) @
          [\<lparr>row_id = ID m, row_description = Description m, row_checksum = ?c\<rparr>])"
      "ID m \<notin> row_id ` set (ledger_rows (durable w))"
      "log w1 = log w @ [ReqBegin DefaultTxOptions, ReqExec (SQL m),
                        ReqInsertLedger (ID m) (Description m) ?c, ReqCommit]"
    by blast
  then show ?thesis
  proof cases
    case e
    with None am run show ?thesis by (intro fail [of e]) auto
  next
    case s
    with None am run show ?thesis
      by (intro ok [of w1]) (auto simp: migration_trace_def applied_entry_def)
  qed
qed

lemma ledger_grows_refl: "ledger_rows d' = ledger_rows d \<Longrightarrow> ledger_grows d d'"
  by (simp add: ledger_grows_def)

lemma ledger_grows_trans: "ledger_grows a b \<Longrightarrow> ledger_grows b c \<Longrightarrow> ledger_grows a c"
  by (fastforce simp: ledger_grows_def)

lemma ledger_grows_snoc:
  "ledger (d') = Some (ledger_rows d @ [r]) \<Longrightarrow> row_id r \<notin> row_id ` set (ledger_rows d) \<Longrightarrow>
     ledger_grows d d'"
  by (simp add: ledger_grows_def ledger_rows_def)

lemma ledger_grows_entries:
  "ledger_grows d d' \<Longrightarrow> i \<in> row_id ` set (ledger_rows d) \<Longrightarrow>
     filter (\<lambda>r. row_id r = i) (ledger_rows d') = filter (\<lambda>r. row_id r = i) (ledger_rows d)"
proof -
  assume g: "ledger_grows d d'" and i: "i \<in> row_id ` set (ledger_rows d)"
  from g obtain ext where e: "ledger_rows d' = ledger_rows d @ ext"
    "row_id ` set ext \<inter> row_id ` set (ledger_rows d) = {}" by (auto simp: ledger_grows_def)
  from e(2) i have "\<forall>r\<in>set ext. row_id r \<noteq> i" by blast
  then have "filter (\<lambda>r. row_id r = i) ext = []" by (simp add: filter_empty_conv)
  with e(1) show ?thesis by simp
qed

lemma foldl_upd_notin:
  "k \<notin> fst ` set xs \<Longrightarrow> foldl (\<lambda>result row. result(fst row \<mapsto> snd row)) m0 xs k = m0 k"
  by (induction xs arbitrary: m0) auto

lemma ledger_grows_map:
  "ledger_grows d d' \<Longrightarrow> ledger_map d i = Some c \<Longrightarrow> ledger_map d' i = Some c"
proof -
  assume g: "ledger_grows d d'" and l: "ledger_map d i = Some c"
  from g obtain ext where e: "ledger_rows d' = ledger_rows d @ ext"
    "row_id ` set ext \<inter> row_id ` set (ledger_rows d) = {}" by (auto simp: ledger_grows_def)
  from l have "i \<in> dom (ledger_map d)" by auto
  then have "i \<in> row_id ` set (ledger_rows d)" by (simp add: ledger_map_dom)
  with e(2) have "i \<notin> fst ` set (map (\<lambda>r. (row_id r, row_checksum r)) ext)"
    by (auto simp: image_image)
  with e(1) l show ?thesis
    by (simp add: ledger_map_def foldl_upd_notin)
qed

lemma applyMigration_never_panics:
  fixes r :: "(error option, 'p) outcome"
  shows "applyMigration sem m c w = (r, w') \<Longrightarrow> r \<noteq> Panics p"
  by (drule applyMigration_cases) auto

lemma migrate_loop_frame:
  fixes w w' :: "'s world" and r :: "(error + MigrationResult, 'p) outcome"
  shows "migrate_loop Sum256 sem ap ms res w = (r, w') \<Longrightarrow>
     ledger_grows (durable w) (durable w') \<and>
     (ledger (durable w) \<noteq> None \<longrightarrow> ledger (durable w') \<noteq> None) \<and>
     (\<forall>p. r \<noteq> Panics p) \<and> (\<forall>e. r = Returns (Inl e) \<longrightarrow> as_Error e \<noteq> None)"
proof (induction ms arbitrary: res w)
  case Nil
  then show ?case by (auto simp: ledger_grows_refl)
next
  case (Cons m ms)
  from Cons.prems show ?case
  proof (cases rule: migrate_loop_step)
    case (drift existing)
    then show ?thesis by (auto simp: ledger_grows_refl mkError_def)
  next
    case skip
    with Cons.IH show ?thesis by blast
  next
    case (fail e)
    then show ?thesis by (auto simp: ledger_grows_refl)
  next
    case (ok w1)
    from ok(3,4) have g: "ledger_grows (durable w) (durable w1)"
      by (intro ledger_grows_snoc) auto
    from Cons.IH [OF ok(6)] ok(3) g show ?thesis
      by (auto intro: ledger_grows_trans)
  qed
qed

lemma migrate_loop_append:
  fixes w :: "'s world"
  shows "(migrate_loop Sum256 sem ap (xs @ ys) res w :: (error + MigrationResult, 'p) outcome \<times> 's world) =
     (case migrate_loop Sum256 sem ap xs res w of
        (Returns (Inr res1), w1) \<Rightarrow> migrate_loop Sum256 sem ap ys res1 w1
      | other \<Rightarrow> other)"
proof (induction xs arbitrary: res w)
  case Nil
  show ?case by simp
next
  case (Cons m xs)
  show ?case
    by (simp add: Cons.IH Let_def split: option.splits prod.splits outcome.splits sum.splits)
qed

lemma migrate_loop_success:
  fixes w w' :: "'s world"
  assumes "migrate_loop Sum256 sem ap ms res w
             = (Returns (Inr r) :: (error + MigrationResult, 'p) outcome, w')"
  shows "Skipped r = Skipped res @ map ID (filter (\<lambda>m. ap (ID m) \<noteq> None) ms) \<and>
     Applied r = Applied res @ map (applied_entry Sum256) (filter (\<lambda>m. ap (ID m) = None) ms) \<and>
     log w' = log w @ concat (map (migration_trace Sum256) (filter (\<lambda>m. ap (ID m) = None) ms)) \<and>
     (\<forall>m\<in>set ms. ap (ID m) \<noteq> None \<longrightarrow> ap (ID m) = Some (checksumSQL Sum256 (SQL m)))"
  using assms
proof (induction ms arbitrary: res w)
  case Nil
  then show ?case by auto
next
  case (Cons m ms)
  from Cons.prems show ?case
  proof (cases rule: migrate_loop_step)
    case (drift existing)
    then show ?thesis by simp
  next
    case skip
    from Cons.IH [OF skip(2)] skip(1) show ?thesis by simp
  next
    case (fail e)
    then show ?thesis by simp
  next
    case (ok w1)
    from Cons.IH [OF ok(6)] ok(1,5) show ?thesis by simp
  qed
qed

lemma migrate_loop_all_skipped:
  fixes w :: "'s world"
  assumes "\<forall>m\<in>set ms. ap (ID m) = Some (checksumSQL Sum256 (SQL m))"
  shows "(migrate_loop Sum256 sem ap ms res w :: (error + MigrationResult, 'p) outcome \<times> 's world)
           = (Returns (Inr (res\<lparr>Skipped := Skipped res @ map ID ms\<rparr>)), w)"
  using assms by (induction ms arbitrary: res) auto

lemma migrate_loop_recorded:
  fixes w w' :: "'s world"
  assumes "migrate_loop Sum256 sem ap ms res w
             = (Returns (Inr r) :: (error + MigrationResult, 'p) outcome, w')"
    and "\<forall>i c. ap i = Some c \<longrightarrow> ledger_map (durable w) i = Some c"
  shows "\<forall>m\<in>set ms. ledger_map (durable w') (ID m) = Some (checksumSQL Sum256 (SQL m))"
  using assms
proof (induction ms arbitrary: res w)
  case Nil
  then show ?case by simp
next
  case (Cons m ms)
  from Cons.prems(1) show ?case
  proof (cases rule: migrate_loop_step)
    case (drift existing)
    then show ?thesis by simp
  next
    case skip
    from Cons.IH [OF skip(2) Cons.prems(2)] have rest:
      "\<forall>m\<in>set ms. ledger_map (durable w') (ID m) = Some (checksumSQL Sum256 (SQL m))" .
    from skip(1) Cons.prems(2)
    have "ledger_map (durable w) (ID m) = Some (checksumSQL Sum256 (SQL m))" by blast
    moreover from migrate_loop_frame [OF skip(2)] have "ledger_grows (durable w) (durable w')" by simp
    ultimately have "ledger_map (durable w') (ID m) = Some (checksumSQL Sum256 (SQL m))"
      by (rule ledger_grows_map [rotated])
    with rest show ?thesis by simp
  next
    case (fail e)
    then show ?thesis by simp
  next
    case (ok w1)
    from ok(3,4) have g: "ledger_grows (durable w) (durable w1)"
      by (intro ledger_grows_snoc) auto
    from ok(3) have "ledger_rows (durable w1) = ledger_rows (durable w) @
          [\<lparr>row_id = ID m, row_description = Description m,
            row_checksum = checksumSQL Sum256 (SQL m)\<rparr>]"
      by (simp add: ledger_rows_def)
    then have m1: "ledger_map (durable w1) = (ledger_map (durable w))(ID m \<mapsto> checksumSQL Sum256 (SQL m))"
      using ledger_map_snoc by fastforce
    have inv: "\<forall>i c. ap i = Some c \<longrightarrow> ledger_map (durable w1) i = Some c"
      using Cons.prems(2) g ledger_grows_map by blast
    from Cons.IH [OF ok(6) inv] have rest:
      "\<forall>m\<in>set ms. ledger_map (durable w') (ID m) = Some (checksumSQL Sum256 (SQL m))" .
    from m1 have "ledger_map (durable w1) (ID m) = Some (checksumSQL Sum256 (SQL m))" by simp
    moreover from migrate_loop_frame [OF ok(6)] have "ledger_grows (durable w1) (durable w')" by simp
    ultimately have "ledger_map (durable w') (ID m) = Some (checksumSQL Sum256 (SQL m))"
      by (rule ledger_grows_map [rotated])
    with rest show ?thesis by simp
  qed
qed

lemma Migrate_cases:
  fixes w w' :: "'s world" and r :: "(error + MigrationResult, 'p) outcome"
  assumes run: "Migrate Sum256 sem ms w = (r, w')"
  obtains (pre) e where "r = Returns (Inl e)" "as_Error e \<noteq> None"
      "ledger_rows (durable w') = ledger_rows (durable w)" "schema (durable w') = schema (durable w)"
      "\<And>ms'. (Migrate Sum256 sem ms' w :: (error + MigrationResult, 'p) outcome \<times> 's world) = (r, w')"
  | (loop) w2 where "durable w2 = ensure_ledger (durable w)"
      "log w2 = log w @ [ReqExec migrationsTable, ReqSelectLedger]"
      "migrate_loop Sum256 sem (ledger_map (durable w)) ms \<lparr>Applied = [], Skipped = []\<rparr> w2 = (r, w')"
      "\<And>ms'. (Migrate Sum256 sem ms' w :: (error + MigrationResult, 'p) outcome \<times> 's world)
         = migrate_loop Sum256 sem (ledger_map (durable w)) ms' \<lparr>Applied = [], Skipped = []\<rparr> w2"
proof -
  obtain e1 w1 where ex: "db_ExecContext sem migrationsTable w = (e1, w1)" by (metis surj_pair)
  note f1 = ensure_table_cases [OF ex]
  show ?thesis
  proof (cases e1)
    case (Some err)
    with ex f1 run show ?thesis
      by (intro pre [of "mkError CodeUnknown ''failed to create migrations table'' ''Migrate'' (Some err)"])
        (auto simp: Migrate_def mkError_def)
  next
    case None
    obtain g w2 where ga: "getAppliedMigrations w1 = (g, w2)" by (metis surj_pair)
    note f2 = getAppliedMigrations_cases [OF ga]
    show ?thesis
    proof (cases g)
      case (Inl err)
      with ex None ga f1 f2 run show ?thesis
        by (intro pre [of err]) (auto simp: Migrate_def)
    next
      case (Inr applied)
      with ex None ga f1 f2 run show ?thesis
        by (intro loop [of w2]) (auto simp: Migrate_def)
    qed
  qed
qed

lemma ensure_ledger_id: "ledger d \<noteq> None \<Longrightarrow> ensure_ledger d = d"
  by (auto simp: ensure_ledger_def)

lemma Migrate_no_faults:
  fixes w :: "'s world"
  assumes "faults w = []" and "ledger (durable w) \<noteq> None"
  shows "(Migrate Sum256 sem ms w :: (error + MigrationResult, 'p) outcome \<times> 's world) =
     migrate_loop Sum256 sem (ledger_map (durable w)) ms \<lparr>Applied = [], Skipped = []\<rparr>
       (w\<lparr>log := log w @ [ReqExec migrationsTable, ReqSelectLedger]\<rparr>)"
  using assms
  by (auto simp: Migrate_def db_ExecContext_def send_def getAppliedMigrations_def db_SelectLedger_def
      ensure_ledger_id ledger_map_def ledger_rows_def)

section \<open>Runs on the concrete inputs\<close>

lemmas eval_simps = Migrate_def db_ExecContext_def send_def parse_stmt_def strip_prefix_def
  getAppliedMigrations_def db_SelectLedger_def applyMigration_def Transaction_def
  TransactionWithOptions_def BeginTx_def applyMigration_fn_def Tx_ExecContext_def tx_send_def
  apply_stmt_def Tx_InsertLedger_def insert_row_def Tx_Commit_def sqlTx_Commit_def
  Tx_Rollback_def sqlTx_Rollback_def ensure_ledger_def empty_world_def demo_sem_def
  checksumSQL_def EncodeToString_def demo_Sum256_def migrationsTable_def DefaultTxOptions_def
  wrapError_def wrapError_nonnil_def mkError_def truncateSQL_def Let_def

lemma M1_run:
  "(Migrate demo_Sum256 demo_sem [M1] empty_world :: (error + MigrationResult, unit) outcome \<times> _) =
   (Returns (Inr \<lparr>Applied = [\<lparr>am_ID = ''001'', am_Description = ''first'', am_Checksum = ''4352454154452061''\<rparr>], Skipped = []\<rparr>),
    world_after_M1)"
  by (simp add: eval_simps M1_def world_after_M1_def)

lemma nothing_run:
  "(Migrate demo_Sum256 demo_sem [] world_after_M1 :: (error + MigrationResult, unit) outcome \<times> _) =
   (Returns (Inr \<lparr>Applied = [], Skipped = []\<rparr>),
    world_after_M1\<lparr>log := log world_after_M1 @ [ReqExec migrationsTable, ReqSelectLedger]\<rparr>)"
  by (simp add: eval_simps world_after_M1_def)

lemma Migrate_empty_world:
  "(Migrate demo_Sum256 demo_sem ms empty_world :: (error + MigrationResult, unit) outcome \<times> _) =
     migrate_loop demo_Sum256 demo_sem Map.empty ms \<lparr>Applied = [], Skipped = []\<rparr> world_ready"
  by (simp add: Migrate_def db_ExecContext_def send_def getAppliedMigrations_def db_SelectLedger_def
      ensure_ledger_def empty_world_def world_ready_def)


lemma step_Mb:
  "(applyMigration demo_sem Mb (checksumSQL demo_Sum256 (SQL Mb)) world_ready
      :: (error option, unit) outcome \<times> _) = (Returns None, world_after_Mb)"
  by (simp add: eval_simps Mb_def world_ready_def world_after_Mb_def)


lemma step_Ma:
  "(applyMigration demo_sem Ma (checksumSQL demo_Sum256 (SQL Ma)) world_after_Mb
      :: (error option, unit) outcome \<times> _) = (Returns None, world_after_Mb_Ma)"
  by (simp add: eval_simps Ma_def world_after_Mb_def world_after_Mb_Ma_def)


lemma order_run:
  "(Migrate demo_Sum256 demo_sem [Mb, Ma] empty_world :: (error + MigrationResult, unit) outcome \<times> _) =
   (Returns (Inr \<lparr>Applied = [applied_entry demo_Sum256 Mb, applied_entry demo_Sum256 Ma], Skipped = []\<rparr>),
    world_after_Mb_Ma)"
  by (simp add: Migrate_empty_world step_Mb step_Ma applied_entry_def Let_def)


section \<open>Migrate\<close>

text \<open>
  Claim C2. The id of \<open>m\<close> is absent from the ledger, the migrations before it go
  through and leave \<open>w1\<close>, the transaction for \<open>m\<close> begins, and the SQL of \<open>m\<close> or
  the insert of its ledger row fails. Then \<open>Migrate\<close> returns an error, the last
  request is the rollback, the persisted data are those of \<open>w1\<close> (the schema and the
  ledger as the earlier migrations left them, nothing of \<open>m\<close>), and the result and the
  world are the same whatever migrations \<open>post\<close> follow: none is attempted.
\<close>

theorem Migrate_failure_contained:
  fixes w w1 :: "'s world"
  assumes pre: "Migrate Sum256 sem pre w = (Returns (Inr r1) :: (error + MigrationResult, 'p) outcome, w1)"
    and absent: "ledger_map (durable w) (ID m) = None"
    and begun: "BeginTx DefaultTxOptions w1 = Inr bunTx"
    and fails: "fst (Tx_ExecContext sem (SQL m) (bunTx\<lparr>savepointSeq := 0\<rparr>)) \<noteq> None \<or>
       fst (Tx_InsertLedger (ID m) (Description m) (checksumSQL Sum256 (SQL m))
              (snd (Tx_ExecContext sem (SQL m) (bunTx\<lparr>savepointSeq := 0\<rparr>)))) \<noteq> None"
  shows "\<exists>e w'. (Migrate Sum256 sem (pre @ m # post) w :: (error + MigrationResult, 'p) outcome \<times> 's world)
         = (Returns (Inl e), w') \<and>
       durable w' = durable w1 \<and> last (log w') = ReqRollback \<and>
       (Migrate Sum256 sem (pre @ [m]) w :: (error + MigrationResult, 'p) outcome \<times> 's world)
         = (Returns (Inl e), w')"
  using pre
proof (cases rule: Migrate_cases)
  case (pre e)
  then show ?thesis by simp
next
  case (loop w2)
  from applyMigration_body_fails [OF begun fails]
  obtain e w' where am: "(applyMigration sem m (checksumSQL Sum256 (SQL m)) w1
        :: (error option, 'p) outcome \<times> 's world) = (Returns (Some e), w')"
    and d: "durable w' = durable w1" "last (log w') = ReqRollback" by blast
  from loop(4) [of "pre @ m # post"] loop(4) [of "pre @ [m]"] loop(3) absent am d show ?thesis
    by (simp add: migrate_loop_append)
qed

theorem Migrate_failure_contained_witness:
  "\<exists>e w'. (Migrate demo_Sum256 demo_sem [M1, M2, M3] empty_world
             :: (error + MigrationResult, unit) outcome \<times> _) = (Returns (Inl e), w') \<and>
     schema (durable w') = [''CREATE a''] \<and>
     map row_id (ledger_rows (durable w')) = [''001''] \<and>
     last (log w') = ReqRollback"
proof -
  have absent: "ledger_map (durable empty_world) (ID M2) = None"
    by (simp add: ledger_map_def ledger_rows_def empty_world_def)
  have begun: "BeginTx DefaultTxOptions world_after_M1 =
     Inr \<lparr>srv = world_after_M1\<lparr>log := log world_after_M1 @ [ReqBegin DefaultTxOptions]\<rparr>,
          tx_done = False, work = durable world_after_M1, saves = [], savepointSeq = 0\<rparr>"
    by (simp add: BeginTx_def send_def world_after_M1_def)
  have fails: "fst (Tx_ExecContext demo_sem (SQL M2)
        (\<lparr>srv = world_after_M1\<lparr>log := log world_after_M1 @ [ReqBegin DefaultTxOptions]\<rparr>,
          tx_done = False, work = durable world_after_M1, saves = [], savepointSeq = 0\<rparr>
           \<lparr>savepointSeq := 0\<rparr>)) \<noteq> None \<or>
       fst (Tx_InsertLedger (ID M2) (Description M2) (checksumSQL demo_Sum256 (SQL M2))
              (snd (Tx_ExecContext demo_sem (SQL M2)
        (\<lparr>srv = world_after_M1\<lparr>log := log world_after_M1 @ [ReqBegin DefaultTxOptions]\<rparr>,
          tx_done = False, work = durable world_after_M1, saves = [], savepointSeq = 0\<rparr>
           \<lparr>savepointSeq := 0\<rparr>)))) \<noteq> None"
    by (simp add: eval_simps world_after_M1_def M2_def)
  from Migrate_failure_contained [OF M1_run absent begun fails, of "[M3]"] show ?thesis
    by (auto simp: world_after_M1_def ledger_rows_def)
qed

lemma Migrate_drift_result:
  fixes w w1 :: "'s world"
  assumes pre: "Migrate Sum256 sem pre w = (Returns (Inr r1) :: (error + MigrationResult, 'p) outcome, w1)"
    and found: "ledger_map (durable w) (ID m) = Some existing"
    and differs: "existing \<noteq> checksumSQL Sum256 (SQL m)"
  shows "(Migrate Sum256 sem (pre @ m # post) w :: (error + MigrationResult, 'p) outcome \<times> 's world) =
       (Returns (Inl (mkError CodeUnknown
          (''migration '' @ ID m @ '' has changed (checksum mismatch: expected '' @
           existing @ '', got '' @ checksumSQL Sum256 (SQL m) @ '')'') ''Migrate'' None)), w1) \<and>
     filter (\<lambda>r. row_id r = ID m) (ledger_rows (durable w1)) =
       filter (\<lambda>r. row_id r = ID m) (ledger_rows (durable w))"
  using pre
proof (cases rule: Migrate_cases)
  case (pre e)
  then show ?thesis by simp
next
  case (loop w2)
  from loop(4) [of "pre @ m # post"] loop(3) found differs
  have a: "(Migrate Sum256 sem (pre @ m # post) w :: (error + MigrationResult, 'p) outcome \<times> 's world) =
       (Returns (Inl (mkError CodeUnknown
          (''migration '' @ ID m @ '' has changed (checksum mismatch: expected '' @
           existing @ '', got '' @ checksumSQL Sum256 (SQL m) @ '')'') ''Migrate'' None)), w1)"
    by (simp add: migrate_loop_append)
  from migrate_loop_frame [OF loop(3)] have "ledger_grows (durable w2) (durable w1)" by simp
  with loop(1) have g: "ledger_grows (durable w) (durable w1)"
    by (simp add: ledger_grows_def)
  from found have "ID m \<in> dom (ledger_map (durable w))" by auto
  then have "ID m \<in> row_id ` set (ledger_rows (durable w))" by (simp add: ledger_map_dom)
  from ledger_grows_entries [OF g this] a show ?thesis by simp
qed

text \<open>
  Claim C3. When the migrations before \<open>m\<close> go through (\<open>Migrate\<close> on them alone
  succeeds and leaves the world \<open>w1\<close>) and the id of \<open>m\<close> is in the ledger with a
  checksum other than that of its SQL, \<open>Migrate\<close> returns an error whose message names
  the id and both checksums; the world it leaves is \<open>w1\<close>, whatever migrations \<open>post\<close>
  follow \<open>m\<close>, so none of them is attempted; and the ledger rows of that id are those
  the call found.
\<close>

theorem Migrate_drift_aborts:
  fixes w w1 :: "'s world"
  assumes pre: "Migrate Sum256 sem pre w = (Returns (Inr r1) :: (error + MigrationResult, 'p) outcome, w1)"
    and found: "ledger_map (durable w) (ID m) = Some existing"
    and differs: "existing \<noteq> checksumSQL Sum256 (SQL m)"
  shows "(Migrate Sum256 sem (pre @ m # post) w :: (error + MigrationResult, 'p) outcome \<times> 's world) =
       (Returns (Inl (mkError CodeUnknown
          (''migration '' @ ID m @ '' has changed (checksum mismatch: expected '' @
           existing @ '', got '' @ checksumSQL Sum256 (SQL m) @ '')'') ''Migrate'' None)), w1) \<and>
     filter (\<lambda>r. row_id r = ID m) (ledger_rows (durable w1)) =
       filter (\<lambda>r. row_id r = ID m) (ledger_rows (durable w))"
  using pre found differs by (rule Migrate_drift_result)

theorem Migrate_drift_aborts_witness:
  "(Migrate demo_Sum256 demo_sem [M1_changed, M3] world_after_M1
      :: (error + MigrationResult, unit) outcome \<times> _) =
     (Returns (Inl (mkError CodeUnknown
        ''migration 001 has changed (checksum mismatch: expected 4352454154452061, got 4352454154452062)''
        ''Migrate'' None)),
      world_after_M1\<lparr>log := log world_after_M1 @ [ReqExec migrationsTable, ReqSelectLedger]\<rparr>) \<and>
   filter (\<lambda>r. row_id r = ''001'') (ledger_rows (durable
       (world_after_M1\<lparr>log := log world_after_M1 @ [ReqExec migrationsTable, ReqSelectLedger]\<rparr>))) =
     [\<lparr>row_id = ''001'', row_description = ''first'', row_checksum = ''4352454154452061''\<rparr>]"
proof -
  have found: "ledger_map (durable world_after_M1) (ID M1_changed) = Some ''4352454154452061''"
    by (simp add: ledger_map_def ledger_rows_def world_after_M1_def M1_changed_def)
  have differs: "''4352454154452061'' \<noteq> checksumSQL demo_Sum256 (SQL M1_changed)"
    by (simp add: checksumSQL_def EncodeToString_def demo_Sum256_def M1_changed_def)
  from Migrate_drift_aborts [OF nothing_run found differs, of "[M3]"] show ?thesis
    by (simp add: checksumSQL_def EncodeToString_def demo_Sum256_def M1_changed_def
        ledger_rows_def world_after_M1_def)
qed

text \<open>
  Claim C4. After a successful \<open>Migrate\<close>, a second call with the same list (and no
  fault) returns no applied entry and every input id as skipped; the world is the same
  but for the two requests that ensure and read the ledger: no migration SQL is sent.
\<close>

theorem Migrate_idempotent:
  fixes w w1 :: "'s world"
  assumes first: "Migrate Sum256 sem ms w = (Returns (Inr r) :: (error + MigrationResult, 'p) outcome, w1)"
    and nofault: "faults w1 = []"
  shows "(Migrate Sum256 sem ms w1 :: (error + MigrationResult, 'p) outcome \<times> 's world) =
     (Returns (Inr \<lparr>Applied = [], Skipped = map ID ms\<rparr>),
      w1\<lparr>log := log w1 @ [ReqExec migrationsTable, ReqSelectLedger]\<rparr>)"
  using first
proof (cases rule: Migrate_cases)
  case (pre e)
  then show ?thesis by simp
next
  case (loop w2)
  have inv: "\<forall>i c. ledger_map (durable w) i = Some c \<longrightarrow> ledger_map (durable w2) i = Some c"
    using loop(1) by simp
  note rec = migrate_loop_recorded [OF loop(3) inv]
  from loop(1) have "ledger (durable w2) \<noteq> None" by simp
  with migrate_loop_frame [OF loop(3)] have ex: "ledger (durable w1) \<noteq> None" by simp
  show ?thesis
    by (simp add: Migrate_no_faults [OF nofault ex] migrate_loop_all_skipped [OF rec])
qed

theorem Migrate_idempotent_witness:
  "(Migrate demo_Sum256 demo_sem [M1] world_after_M1 :: (error + MigrationResult, unit) outcome \<times> _) =
     (Returns (Inr \<lparr>Applied = [], Skipped = [''001'']\<rparr>),
      world_after_M1\<lparr>log := log world_after_M1 @ [ReqExec migrationsTable, ReqSelectLedger]\<rparr>)"
proof -
  have nofault: "faults world_after_M1 = []" by (simp add: world_after_M1_def)
  from Migrate_idempotent [OF M1_run nofault] show ?thesis by (simp add: M1_def)
qed

text \<open>
  Claim C10. On a successful run the applied entries are the migrations whose id the
  ledger did not have, in input order, the skipped ids are the others, in input order,
  every input id is in exactly one of the two lists, and the requests sent are those of
  the applied migrations one after the other in input order: no sorting by id.
\<close>

theorem Migrate_order:
  fixes w w' :: "'s world"
  assumes run: "Migrate Sum256 sem ms w = (Returns (Inr r) :: (error + MigrationResult, 'p) outcome, w')"
  shows "Applied r = map (applied_entry Sum256) (filter (\<lambda>m. ledger_map (durable w) (ID m) = None) ms) \<and>
     Skipped r = map ID (filter (\<lambda>m. ledger_map (durable w) (ID m) \<noteq> None) ms) \<and>
     log w' = log w @ [ReqExec migrationsTable, ReqSelectLedger] @
       concat (map (migration_trace Sum256) (filter (\<lambda>m. ledger_map (durable w) (ID m) = None) ms)) \<and>
     (\<forall>m\<in>set ms. (ID m \<in> set (map am_ID (Applied r))) \<noteq> (ID m \<in> set (Skipped r)))"
  using run
proof (cases rule: Migrate_cases)
  case (pre e)
  then show ?thesis by simp
next
  case (loop w2)
  note s = migrate_loop_success [OF loop(3)]
  have "\<forall>m\<in>set ms. (ID m \<in> set (map am_ID (Applied r))) \<noteq> (ID m \<in> set (Skipped r))"
  proof
    fix m assume "m \<in> set ms"
    then show "(ID m \<in> set (map am_ID (Applied r))) \<noteq> (ID m \<in> set (Skipped r))"
      using s by (cases "ledger_map (durable w) (ID m)") (auto simp: applied_entry_def image_iff)
  qed
  with s loop(2) show ?thesis by simp
qed

theorem Migrate_order_witness:
  "(Migrate demo_Sum256 demo_sem [Mb, Ma] empty_world :: (error + MigrationResult, unit) outcome \<times> _) =
     (Returns (Inr \<lparr>Applied = [applied_entry demo_Sum256 Mb, applied_entry demo_Sum256 Ma], Skipped = []\<rparr>),
      world_after_Mb_Ma) \<and>
   map am_ID [applied_entry demo_Sum256 Mb, applied_entry demo_Sum256 Ma] = [''b_002'', ''a_001''] \<and>
   log world_after_Mb_Ma =
     log empty_world @ [ReqExec migrationsTable, ReqSelectLedger] @
     migration_trace demo_Sum256 Mb @ migration_trace demo_Sum256 Ma"
proof -
  have m: "ledger_map (durable empty_world) = Map.empty"
    by (simp add: ledger_map_def ledger_rows_def empty_world_def)
  have c: "log world_after_Mb_Ma =
     log empty_world @ [ReqExec migrationsTable, ReqSelectLedger] @
     migration_trace demo_Sum256 Mb @ migration_trace demo_Sum256 Ma"
    using Migrate_order [OF order_run] unfolding m by simp
  have i: "map am_ID [applied_entry demo_Sum256 Mb, applied_entry demo_Sum256 Ma] = [''b_002'', ''a_001'']"
    by (simp add: applied_entry_def Mb_def Ma_def)
  from c i order_run show ?thesis by blast
qed

lemma MigrationStatus_frame:
  "ledger_rows (durable (snd (MigrationStatus Sum256 sem ms w))) = ledger_rows (durable w) \<and>
   schema (durable (snd (MigrationStatus Sum256 sem ms w))) = schema (durable w) \<and>
   durable (snd (MigrationStatus Sum256 sem ms w)) =
     (if fst (send (ReqExec migrationsTable) w) = None then ensure_ledger (durable w)
      else durable w)"
proof -
  obtain e1 w1 where ex: "db_ExecContext sem migrationsTable w = (e1, w1)" by (metis surj_pair)
  note f1 = ensure_table_cases [OF ex]
  have s: "e1 = fst (send (ReqExec migrationsTable) w)"
    using ex by (auto simp: db_ExecContext_def split: prod.splits option.splits)
  obtain g w2 where ga: "getAppliedMigrations w1 = (g, w2)" by (metis surj_pair)
  note f2 = getAppliedMigrations_cases [OF ga]
  from ex ga f1 f2 s show ?thesis
    by (cases e1; cases g) (auto simp: MigrationStatus_def)
qed

text \<open>
  Claim C9 as stated fails: on a database without the ledger table, \<open>MigrationStatus\<close>
  creates the table, so the persisted state is not the one it found.
\<close>

theorem MigrationStatus_creates_table:
  "durable empty_world = \<lparr>schema = [], ledger = None\<rparr> \<and>
   MigrationStatus demo_Sum256 demo_sem [M1] empty_world =
     (Inr [\<lparr>se_ID = ''001'', se_Description = ''first'', se_Checksum = ''4352454154452061'',
            se_Applied = False, se_ChecksumMatch = False\<rparr>], world_status_run) \<and>
   durable world_status_run = \<lparr>schema = [], ledger = Some []\<rparr>"
  by (simp add: MigrationStatus_def eval_simps M1_def world_status_run_def ledger_rows_def)

text \<open>
  Claim C9, amended. \<open>MigrationStatus\<close> creates, changes and deletes no ledger entry and
  leaves the schema as it was, for every migration list and world. When the ledger table
  exists, the persisted data are exactly those it found. When the table is absent, its
  first statement (\<open>CREATE TABLE IF NOT EXISTS\<close>) creates it, empty, if the statement
  reaches the database; nothing else changes.
\<close>

theorem MigrationStatus_keeps_entries:
  "ledger_rows (durable (snd (MigrationStatus Sum256 sem ms w))) = ledger_rows (durable w) \<and>
   schema (durable (snd (MigrationStatus Sum256 sem ms w))) = schema (durable w) \<and>
   (ledger (durable w) \<noteq> None \<longrightarrow>
      durable (snd (MigrationStatus Sum256 sem ms w)) = durable w) \<and>
   (ledger (durable w) = None \<longrightarrow>
      durable (snd (MigrationStatus Sum256 sem ms w)) =
        (if fst (send (ReqExec migrationsTable) w) = None
         then (durable w)\<lparr>ledger := Some []\<rparr> else durable w))"
  using MigrationStatus_frame [of Sum256 sem ms w]
  by (auto simp: ensure_ledger_def split: option.splits)

theorem MigrationStatus_keeps_entries_witness:
  "durable (snd (MigrationStatus demo_Sum256 demo_sem [M1_changed] world_after_M1)) =
     durable world_after_M1 \<and>
   ledger_rows (durable world_after_M1) =
     [\<lparr>row_id = ''001'', row_description = ''first'', row_checksum = ''4352454154452061''\<rparr>] \<and>
   durable (snd (MigrationStatus demo_Sum256 demo_sem [M1] empty_world)) =
     \<lparr>schema = [], ledger = Some []\<rparr>"
proof -
  have a: "ledger (durable world_after_M1) \<noteq> None" "ledger (durable empty_world) = None"
    "fst (send (ReqExec migrationsTable) empty_world) = None"
    "(durable empty_world)\<lparr>ledger := Some []\<rparr> = \<lparr>schema = [], ledger = Some []\<rparr>"
    "ledger_rows (durable world_after_M1) =
       [\<lparr>row_id = ''001'', row_description = ''first'', row_checksum = ''4352454154452061''\<rparr>]"
    by (simp_all add: world_after_M1_def empty_world_def send_def ledger_rows_def)
  from MigrationStatus_keeps_entries [of demo_Sum256 demo_sem "[M1_changed]" world_after_M1]
    MigrationStatus_keeps_entries [of demo_Sum256 demo_sem "[M1]" empty_world] a
  show ?thesis by simp
qed

lemma as_Error_GetErrorCode: "as_Error e \<noteq> None \<Longrightarrow> GetErrorCode e \<noteq> None"
  by (auto simp: GetErrorCode_def)

section \<open>The callback-based transaction\<close>

lemma losing_begin: "BeginTx DefaultTxOptions world_losing_rollback = Inr begun_losing_rollback"
  by (simp add: BeginTx_def send_def world_losing_rollback_def empty_world_def
      begun_losing_rollback_def)

lemma empty_begin: "BeginTx DefaultTxOptions empty_world = Inr begun_empty"
  by (simp add: BeginTx_def send_def empty_world_def begun_empty_def)

lemma begun_seq [simp]:
  "begun_losing_rollback\<lparr>savepointSeq := 0\<rparr> = begun_losing_rollback"
  "begun_empty\<lparr>savepointSeq := 0\<rparr> = begun_empty"
  by (simp_all add: begun_losing_rollback_def begun_empty_def)

lemma losing_rollback:
  "Tx_Rollback begun_losing_rollback =
     (Some (mkError CodeUnknown ''connection lost'' ''Rollback'' (Some (Plain ''connection lost''))),
      begun_losing_rollback\<lparr>srv := world_rolled_back, tx_done := True\<rparr>)"
  by (simp add: Tx_Rollback_def sqlTx_Rollback_def tx_send_def send_def wrapError_def
      wrapError_nonnil_def begun_losing_rollback_def world_rolled_back_def)

lemma empty_rollback:
  "Tx_Rollback begun_empty = (None, begun_empty\<lparr>srv := world_rolled_back, tx_done := True\<rparr>)"
  by (simp add: Tx_Rollback_def sqlTx_Rollback_def tx_send_def send_def
      begun_empty_def world_rolled_back_def)

text \<open>
  Claim C5. When the callback panics with \<open>p\<close>, \<open>TransactionWithOptions\<close> calls
  \<open>Rollback\<close> on the state the callback left (the rollback request is sent if the
  transaction is still open, and nothing is persisted) and panics with the same \<open>p\<close>,
  whatever \<open>Rollback\<close> returned.
\<close>

theorem panic_rolls_back_and_propagates:
  assumes begun: "BeginTx opts w = Inr bunTx"
    and panics: "fn \<lparr>savepointID = 0\<rparr> (bunTx\<lparr>savepointSeq := 0\<rparr>) = (Panics p, st1)"
  shows "TransactionWithOptions opts fn w = (Panics p, srv (snd (Tx_Rollback st1))) \<and>
     tx_done (snd (Tx_Rollback st1)) \<and>
     durable (srv (snd (Tx_Rollback st1))) = durable (srv st1) \<and>
     (\<not> tx_done st1 \<longrightarrow> log (srv (snd (Tx_Rollback st1))) = log (srv st1) @ [ReqRollback])"
proof -
  obtain rb st2 where rb: "Tx_Rollback st1 = (rb, st2)" by (metis surj_pair)
  from Tx_Rollback_frame [OF rb] rb begun panics show ?thesis
    by (simp add: TransactionWithOptions_def)
qed

theorem panic_rolls_back_and_propagates_witness:
  "TransactionWithOptions DefaultTxOptions panicking_fn world_losing_rollback =
     (Panics ''boom'', world_rolled_back) \<and>
   fst (Tx_Rollback begun_losing_rollback) =
     Some (mkError CodeUnknown ''connection lost'' ''Rollback'' (Some (Plain ''connection lost'')))"
proof -
  have p: "panicking_fn \<lparr>savepointID = 0\<rparr> (begun_losing_rollback\<lparr>savepointSeq := 0\<rparr>) =
     (Panics ''boom'', begun_losing_rollback)"
    by (simp add: panicking_fn_def)
  from panic_rolls_back_and_propagates [where fn = panicking_fn, OF losing_begin p] show ?thesis
    by (simp add: losing_rollback)
qed

text \<open>
  Claim C6. When the callback returns the error \<open>err\<close>, \<open>Rollback\<close> is called and
  nothing is persisted. If it returns nil the result is \<open>err\<close> itself; if it returns
  \<open>rbErr\<close> the result is one error whose text holds the text of \<open>rbErr\<close> and the text
  of \<open>err\<close>, and which unwraps to \<open>err\<close>.
\<close>

theorem error_rolls_back_or_composite:
  assumes begun: "BeginTx opts w = Inr bunTx"
    and failed: "fn \<lparr>savepointID = 0\<rparr> (bunTx\<lparr>savepointSeq := 0\<rparr>) = (Returns (Some err), st1)"
  shows "(fst (Tx_Rollback st1) = None \<longrightarrow>
        TransactionWithOptions opts fn w = (Returns (Some err), srv (snd (Tx_Rollback st1)))) \<and>
     (\<forall>rbErr. fst (Tx_Rollback st1) = Some rbErr \<longrightarrow>
        TransactionWithOptions opts fn w =
          (Returns (Some (Errorf (''dbkit: rollback failed: '' @ err_string rbErr @
                                  '' (original error: '' @ err_string err @ '')'') err)),
           srv (snd (Tx_Rollback st1))) \<and>
        unwrap (Errorf (''dbkit: rollback failed: '' @ err_string rbErr @
                        '' (original error: '' @ err_string err @ '')'') err) = Some err) \<and>
     tx_done (snd (Tx_Rollback st1)) \<and>
     durable (srv (snd (Tx_Rollback st1))) = durable (srv st1) \<and>
     (\<not> tx_done st1 \<longrightarrow> log (srv (snd (Tx_Rollback st1))) = log (srv st1) @ [ReqRollback])"
proof -
  obtain rb st2 where rb: "Tx_Rollback st1 = (rb, st2)" by (metis surj_pair)
  from Tx_Rollback_frame [OF rb] rb begun failed show ?thesis
    by (cases rb) (simp_all add: TransactionWithOptions_def)
qed

theorem error_rolls_back_or_composite_witness:
  "TransactionWithOptions DefaultTxOptions failing_fn world_losing_rollback =
     (Returns (Some (Errorf
        ''dbkit: rollback failed: dbkit.Rollback: connection lost (original error: callback failed)''
        (Plain ''callback failed''))),
      world_rolled_back) \<and>
   TransactionWithOptions DefaultTxOptions failing_fn empty_world =
     (Returns (Some (Plain ''callback failed'')), world_rolled_back)"
proof -
  have f: "failing_fn \<lparr>savepointID = 0\<rparr> (begun_losing_rollback\<lparr>savepointSeq := 0\<rparr>) =
     (Returns (Some (Plain ''callback failed'')), begun_losing_rollback)"
    by (simp add: failing_fn_def)
  have f2: "failing_fn \<lparr>savepointID = 0\<rparr> (begun_empty\<lparr>savepointSeq := 0\<rparr>) =
     (Returns (Some (Plain ''callback failed'')), begun_empty)"
    by (simp add: failing_fn_def)
  from error_rolls_back_or_composite [where fn = failing_fn, OF losing_begin f]
    error_rolls_back_or_composite [where fn = failing_fn, OF empty_begin f2]
  show ?thesis
    by (simp add: losing_rollback empty_rollback mkError_def)
qed

section \<open>Nested scopes\<close>

lemma not_migrationsTable_S: "CHR ''S'' # q \<noteq> migrationsTable"
  by (simp add: migrationsTable_def)

lemma not_migrationsTable_R: "CHR ''R'' # q \<noteq> migrationsTable"
  by (simp add: migrationsTable_def)

lemma parse_savepoint: "parse_stmt (''SAVEPOINT '' @ n) = StSavepoint n"
  by (simp add: parse_stmt_def strip_prefix_def not_migrationsTable_S)

lemma parse_rollback_to: "parse_stmt (''ROLLBACK TO SAVEPOINT '' @ n) = StRollbackTo n"
  by (simp add: parse_stmt_def strip_prefix_def not_migrationsTable_R)

lemma parse_release: "parse_stmt (''RELEASE SAVEPOINT '' @ n) = StRelease n"
  by (simp add: parse_stmt_def strip_prefix_def not_migrationsTable_R)


lemma strip_savepoint:
  "strip_prefix ''SAVEPOINT '' (''SAVEPOINT '' @ n) = Some n"
  "strip_prefix ''SAVEPOINT '' (''ROLLBACK TO SAVEPOINT '' @ n) = None"
  "strip_prefix ''SAVEPOINT '' (''RELEASE SAVEPOINT '' @ n) = None"
  by (simp_all add: strip_prefix_def)

lemmas parse_savepoint_stmts [simp] =
  parse_savepoint parse_rollback_to parse_release
  parse_savepoint [simplified] parse_rollback_to [simplified] parse_release [simplified]
  strip_savepoint strip_savepoint [simplified]

lemma savepoints_of_append [simp]:
  "savepoints_of (xs @ ys) = savepoints_of xs @ savepoints_of ys"
  by (simp add: savepoints_of_def)

lemma savepoints_of_single [simp]:
  "savepoints_of [ReqExec q] = (case strip_prefix ''SAVEPOINT '' q of None \<Rightarrow> [] | Some n \<Rightarrow> [n])"
  by (simp add: savepoints_of_def split: option.splits)

lemma savepoints_of_Nil [simp]: "savepoints_of [] = []"
  by (simp add: savepoints_of_def)










lemma scope_names_0 [simp]: "scope_names s 0 = []"
  by (simp add: scope_names_def)

lemma upt_shift: "map f [Suc a..<Suc (a + b)] = map (\<lambda>j. f (a + j)) [1..<Suc b]"
  by (induction b) simp_all

lemma scope_names_append:
  "scope_names s (a + b) = scope_names s a @ scope_names (s + of_nat a) b"
proof -
  have "[1..<Suc (a + b)] = [1..<Suc a] @ [Suc a..<Suc (a + b)]"
    by (metis Suc_eq_plus1 add_Suc le_add2 plus_1_eq_Suc upt_add_eq_append)
  then show ?thesis
    by (simp add: scope_names_def upt_shift [of _ a b] add.assoc del: upt_Suc)
qed





lemma scope_names_mono: "set (scope_names (s + of_nat a) b) \<subseteq> set (scope_names s (a + b))"
  by (simp add: scope_names_append)

lemma scope_names_mono': "set (scope_names s a) \<subseteq> set (scope_names s (a + b))"
  by (simp add: scope_names_append)

lemma savepoints_of_other [simp]:
  "savepoints_of [ReqBegin opts] = []"
  "savepoints_of [ReqCommit] = []"
  "savepoints_of [ReqRollback] = []"
  by (simp_all add: savepoints_of_def)

lemma savepoints_of_length: "length (savepoints_of reqs) \<le> length reqs"
proof (induction reqs)
  case Nil
  show ?case by simp
next
  case (Cons r reqs)
  have "savepoints_of (r # reqs) = savepoints_of [r] @ savepoints_of reqs"
    using savepoints_of_append [of "[r]" reqs] by simp
  moreover have "length (savepoints_of [r]) \<le> 1"
    by (simp add: savepoints_of_def split: request.splits option.splits)
  ultimately show ?case using Cons by simp
qed

lemma wrapError_None [simp]: "wrapError None op = None"
  by (simp add: wrapError_def)

lemma wrapError_Some: "\<exists>e'. wrapError (Some e) op = Some e'"
  by (simp add: wrapError_def)






lemma send_faults: "send r w = (f, w') \<Longrightarrow> faults w = [] \<Longrightarrow> f = None \<and> faults w' = []"
  by (auto simp: send_def)

lemma Tx_ExecContext_faults:
  "Tx_ExecContext sem q st = (e, st') \<Longrightarrow> faults (srv st) = [] \<Longrightarrow> faults (srv st') = []"
  by (auto simp: Tx_ExecContext_def tx_send_def send_def apply_stmt_def
      split: if_splits prod.splits option.splits sum.splits stmt.splits list.splits)






























section \<open>The kinds of errors\<close>

lemma wrapError_nonnil_classified: "GetErrorCode (wrapError_nonnil e op) \<noteq> None"
  using wrapError_nonnil_as_Error [of e op] by (rule as_Error_GetErrorCode)

lemma wrapError_nonnil_classified': "\<exists>c. GetErrorCode (wrapError_nonnil e op) = Some c"
  using wrapError_nonnil_classified [of e op] by auto

lemmas classified_simps = wrapError_nonnil_classified wrapError_nonnil_classified' wrapError_def

lemma wrapError_classified: "wrapError err op = Some e \<Longrightarrow> GetErrorCode e \<noteq> None"
  by (auto simp: classified_simps split: option.splits)















end
